theory Spec2Isabelle
  imports Complex_Main
begin

section \<open>Errors\<close>

text \<open>
  The Python exceptions that the modelled functions can raise. A function that may raise
  returns \<open>error + 'a\<close>, with \<open>Inl\<close> carrying the exception; \<open>bind_err\<close> runs the
  next statement on a result and passes an exception on unchanged. \<open>KeyError\<close> carries the
  missing key, \<open>ImportError\<close> its message.
\<close>

datatype error =
    TypeError
  | KeyError string
  | ValueError
  | OSError
  | ImportError string

definition bind_err :: "error + 'a \<Rightarrow> ('a \<Rightarrow> error + 'b) \<Rightarrow> error + 'b" where
  "bind_err r f = (case r of Inl e \<Rightarrow> Inl e | Inr v \<Rightarrow> f v)"

section \<open>pv\_actors.py: the actor tree\<close>

subsection \<open>\<open>str\<close> of an integer\<close>

definition digit_char :: "nat \<Rightarrow> char" where
  "digit_char d = ''0123456789'' ! d"

fun str_nat :: "nat \<Rightarrow> string" where
  "str_nat n = (if n < 10 then [digit_char n] else str_nat (n div 10) @ [digit_char (n mod 10)])"

declare str_nat.simps [simp del]

definition str :: "int \<Rightarrow> string" where
  "str i = (if i < 0 then CHR ''-'' # str_nat (nat (- i)) else str_nat (nat i))"

subsection \<open>Actors and tree entries\<close>

text \<open>
  An actor is a rendering object of the plotting library; the only thing the module does
  with it is \<open>SetVisibility\<close>. \<open>handle\<close> identifies the underlying object.
\<close>

record actor =
  handle :: nat
  visibility :: bool

definition SetVisibility :: "bool \<Rightarrow> actor \<Rightarrow> actor" where
  "SetVisibility b a = a\<lparr>visibility := b\<rparr>"

text \<open>One dictionary of the tree: the keys \<open>"id"\<close>, \<open>"parent"\<close>, \<open>"visible"\<close>, \<open>"name"\<close>.\<close>

record tree_entry =
  id' :: string
  parent :: string
  visible :: bool
  name :: string

text \<open>
  \<^verbatim>\<open>
  def standard_tree(actors, actor_names, base_id=0):
      for i, actor in enumerate(actors):
          if i == 0: actor.SetVisibility(True)
          else:      actor.SetVisibility(False)
      tree = [{"id": str(base_id + 1 + i),
               "parent": str(0) if i == 0 else str(base_id + 1),
               "visible": True if i == 0 else False,
               "name": actor_names[i]}
              for i, name in enumerate(actor_names)]
      return actors, actor_names, tree
  \<close>
  \<open>actor_names\<close> arrives from \<open>generate_actors_tree\<close>, where it is optional;
  \<open>enumerate(None)\<close> raises \<open>TypeError\<close>.
\<close>

definition set_visibilities :: "actor list \<Rightarrow> actor list" where
  "set_visibilities actors =
     map (\<lambda>i. if i = 0 then SetVisibility True (actors ! i) else SetVisibility False (actors ! i))
       [0..<length actors]"

definition tree_node :: "string list \<Rightarrow> int \<Rightarrow> nat \<Rightarrow> tree_entry" where
  "tree_node actor_names base_id i =
     \<lparr> id' = str (base_id + 1 + int i),
       parent = (if i = 0 then str 0 else str (base_id + 1)),
       visible = (if i = 0 then True else False),
       name = actor_names ! i \<rparr>"

definition standard_tree ::
  "actor list \<Rightarrow> string list option \<Rightarrow> int \<Rightarrow> error + (actor list \<times> string list \<times> tree_entry list)"
where
  "standard_tree actors actor_names base_id =
     (let actors' = set_visibilities actors in
      case actor_names of
        None \<Rightarrow> Inl TypeError
      | Some names \<Rightarrow>
          Inr (actors', names, map (tree_node names base_id) [0..<length names]))"

text \<open>
  \<open>list_add\<close> is Python's \<open>+\<close> on two values that are each a list or \<open>None\<close>: it
  raises \<open>TypeError\<close> unless both are lists.
\<close>

definition list_add :: "'a list option \<Rightarrow> 'a list option \<Rightarrow> error + 'a list" where
  "list_add xs ys =
     (case xs of None \<Rightarrow> Inl TypeError
      | Some a \<Rightarrow> (case ys of None \<Rightarrow> Inl TypeError | Some b \<Rightarrow> Inr (a @ b)))"

definition some3 :: "'a \<times> 'b \<times> 'c \<Rightarrow> 'a option \<times> 'b option \<times> 'c option" where
  "some3 t = (case t of (a, b, c) \<Rightarrow> (Some a, Some b, Some c))"

text \<open>
  \<^verbatim>\<open>
  def generate_actors_tree(pc_actors=None, pc_actor_ids=None,
                           mesh_actors=None, mesh_actor_ids=None):
      if not (pc_actors is None):
          pc_actors, pc_actor_ids, pc_tree = standard_tree(
              actors=pc_actors, actor_names=pc_actor_ids, base_id=0)
      else:
          pc_actors, pc_actor_ids, pc_tree = None, None, None
      if not (mesh_actors is None):
          mesh_actors, mesh_actor_ids, mesh_tree = standard_tree(
              actors=mesh_actors, actor_names=mesh_actor_ids,
              base_id=0 if pc_actors is None else len(pc_actors))
      else:
          mesh_actors, mesh_actor_ids, mesh_tree = None, None, None
      totel_actors = pc_actors + mesh_actors
      totel_actor_ids = pc_actor_ids + mesh_actor_ids
      totel_tree = pc_tree + mesh_tree
      return totel_actors, totel_actor_ids, totel_tree
  \<close>
\<close>

definition generate_actors_tree ::
  "actor list option \<Rightarrow> string list option \<Rightarrow> actor list option \<Rightarrow> string list option
   \<Rightarrow> error + (actor list \<times> string list \<times> tree_entry list)"
where
  "generate_actors_tree pc_actors pc_actor_ids mesh_actors mesh_actor_ids =
     bind_err
       (case pc_actors of
          Some a \<Rightarrow> map_sum id some3 (standard_tree a pc_actor_ids 0)
        | None \<Rightarrow> Inr (None, None, None))
       (\<lambda>(pc_actors', pc_actor_ids', pc_tree).
     bind_err
       (case mesh_actors of
          Some a \<Rightarrow>
            map_sum id some3
              (standard_tree a mesh_actor_ids
                 (case pc_actors' of None \<Rightarrow> 0 | Some p \<Rightarrow> int (length p)))
        | None \<Rightarrow> Inr (None, None, None))
       (\<lambda>(mesh_actors', mesh_actor_ids', mesh_tree).
     bind_err (list_add pc_actors' mesh_actors') (\<lambda>totel_actors.
     bind_err (list_add pc_actor_ids' mesh_actor_ids') (\<lambda>totel_actor_ids.
     bind_err (list_add pc_tree mesh_tree) (\<lambda>totel_tree.
     Inr (totel_actors, totel_actor_ids, totel_tree))))))"

section \<open>dataset\_manager.py: the local file manager\<close>

text \<open>
  The module reads files and resolves paths through \<open>pathlib\<close>, \<open>open\<close>, \<open>base64\<close> and
  trame's \<open>to_mime\<close>. What those return is given by the record \<open>files\<close>: the file system
  (\<open>read_bytes p = None\<close> when \<open>open(p, "rb")\<close> fails) and the library functions.
\<close>

record files =
  is_file :: "string \<Rightarrow> bool"
  is_absolute :: "string \<Rightarrow> bool"
  parent_of :: "string \<Rightarrow> string"
  joinpath :: "string \<Rightarrow> string \<Rightarrow> string"
  resolve_absolute :: "string \<Rightarrow> string"
  read_bytes :: "string \<rightharpoonup> string"
  b64encode :: "string \<Rightarrow> string"
  to_mime :: "string \<Rightarrow> string"

text \<open>
  \<^verbatim>\<open>
  def to_base64(file_path):
      with open(file_path, "rb") as bin_file:
          return base64.b64encode(bin_file.read()).decode("ascii")

  def to_url(file_path: str):
      encoded = to_base64(file_path)
      mime = to_mime(file_path)
      return f"data:{mime};base64,{encoded}"
  \<close>
\<close>

definition to_base64 :: "files \<Rightarrow> string \<Rightarrow> error + string" where
  "to_base64 fs file_path =
     (case read_bytes fs file_path of
        None \<Rightarrow> Inl OSError
      | Some content \<Rightarrow> Inr (b64encode fs content))"

definition to_url :: "files \<Rightarrow> string \<Rightarrow> error + string" where
  "to_url fs file_path =
     bind_err (to_base64 fs file_path) (\<lambda>encoded.
       let mime = to_mime fs file_path in
       Inr (''data:'' @ mime @ '';base64,'' @ encoded))"

text \<open>
  The instance: \<open>self._root\<close> and the dictionary \<open>self._assests\<close>. Every value the class
  stores in the dictionary is a string (a data URL or a directory path).
\<close>

record LocalFileManager =
  root :: string
  assests :: "string \<rightharpoonup> string"

definition init :: "files \<Rightarrow> string \<Rightarrow> LocalFileManager" where
  "init fs base_path =
     (let base = (if is_file fs base_path then parent_of fs base_path else base_path)
      in \<lparr> root = resolve_absolute fs base, assests = Map.empty \<rparr>)"



text \<open>
  \<open>_to_path\<close>: \<open>Path(None)\<close> raises \<open>TypeError\<close>, which is how a missing path reaches
  the callers below.
\<close>

definition to_path :: "files \<Rightarrow> LocalFileManager \<Rightarrow> string option \<Rightarrow> error + string" where
  "to_path fs self file_path =
     (case file_path of
        None \<Rightarrow> Inl TypeError
      | Some p \<Rightarrow>
          if is_absolute fs p then Inr (resolve_absolute fs p)
          else Inr (resolve_absolute fs (joinpath fs (root self) p)))"

text \<open>
  \<^verbatim>\<open>
  def file_url(self, key, file_path):
      if file_path is None:
          file_path, key = key, file_path
      data = to_url(self._to_path(file_path))
      if key is not None:
          self._assests[key] = data
      return data
  \<close>
  The method mutates \<open>self\<close>; the model returns the outcome together with the instance
  after the call (unchanged when the call raises, since the store comes last).
\<close>

definition file_url ::
  "files \<Rightarrow> LocalFileManager \<Rightarrow> string option \<Rightarrow> string option
   \<Rightarrow> (error + string) \<times> LocalFileManager"
where
  "file_url fs self key file_path =
     (let (file_path', key') = (if file_path = None then (key, file_path) else (file_path, key)) in
      case bind_err (to_path fs self file_path') (to_url fs) of
        Inl e \<Rightarrow> (Inl e, self)
      | Inr data \<Rightarrow>
          (Inr data,
           case key' of
             None \<Rightarrow> self
           | Some k \<Rightarrow> self\<lparr>assests := (assests self)(k \<mapsto> data)\<rparr>))"

definition dir_url ::
  "files \<Rightarrow> LocalFileManager \<Rightarrow> string option \<Rightarrow> string option
   \<Rightarrow> (error + string) \<times> LocalFileManager"
where
  "dir_url fs self key dir_path =
     (let (dir_path', key') = (if dir_path = None then (key, dir_path) else (dir_path, key)) in
      case to_path fs self dir_path' of
        Inl e \<Rightarrow> (Inl e, self)
      | Inr data \<Rightarrow>
          (Inr data,
           case key' of
             None \<Rightarrow> self
           | Some k \<Rightarrow> self\<lparr>assests := (assests self)(k \<mapsto> data)\<rparr>))"







text \<open>
  The module creates one manager and registers three directories:
  \<^verbatim>\<open>
  local_dataset_manager = LocalFileManager(__file__)
  local_dataset_manager.dir_url("drosophila_E7_9h", r"./dataset/drosophila_E7_9h")
  local_dataset_manager.dir_url("drosophila_E9_10h", r"./dataset/drosophila_E9_10h")
  local_dataset_manager.dir_url("drosophila_E16_17h", r"./dataset/drosophila_E16_17h")
  \<close>
\<close>

definition local_dataset_manager :: "files \<Rightarrow> string \<Rightarrow> LocalFileManager" where
  "local_dataset_manager fs file =
     (let m0 = init fs file;
          m1 = snd (dir_url fs m0 (Some ''drosophila_E7_9h'') (Some ''./dataset/drosophila_E7_9h''));
          m2 = snd (dir_url fs m1 (Some ''drosophila_E9_10h'') (Some ''./dataset/drosophila_E9_10h''));
          m3 = snd (dir_url fs m2 (Some ''drosophila_E16_17h'') (Some ''./dataset/drosophila_E16_17h''))
      in m3)"

text \<open>
  A small file system for concrete runs: one readable file \<open>/srv/a.png\<close> with content
  \<open>xyz\<close> (base64 \<open>eHl6\<close>); paths are absolute when they start with a slash.
\<close>

definition example_files :: files where
  "example_files =
     \<lparr> is_file = (\<lambda>p. p = ''/srv/a.png''),
       is_absolute = (\<lambda>p. take 1 p = ''/''),
       parent_of = (\<lambda>p. ''/srv''),
       joinpath = (\<lambda>a b. a @ ''/'' @ b),
       resolve_absolute = (\<lambda>p. p),
       read_bytes = [''/srv/a.png'' \<mapsto> ''xyz''],
       b64encode = (\<lambda>c. if c = ''xyz'' then ''eHl6'' else ''''),
       to_mime = (\<lambda>p. ''image/png'') \<rparr>"

section \<open>anndata\_preprocess.py: reducing an AnnData file\<close>

subsection \<open>Matrices and the AnnData object\<close>

text \<open>
  A matrix (a numpy array or a scipy sparse matrix): whether it is sparse, its shape and its
  entries row by row. \<open>csr_matrix\<close> makes a matrix sparse and keeps shape and entries;
  \<open>copy\<close> returns an equal matrix.
\<close>

record matrix =
  issparse :: bool
  shape :: "nat \<times> nat"
  entries :: "real list list"

definition csr_matrix :: "matrix \<Rightarrow> matrix" where
  "csr_matrix m = m\<lparr>issparse := True\<rparr>"

definition copy :: "matrix \<Rightarrow> matrix" where
  "copy m = m"

text \<open>A data frame (\<open>obs\<close>, \<open>var\<close>): its index and its columns in order.\<close>

record dataframe =
  index :: "string list"
  columns :: "(string \<times> string list) list"

text \<open>
  The AnnData object, with the components of the library's schema. The numbers of
  observations and of variables are the lengths of the two indexes.
\<close>

record anndata =
  X :: matrix
  obs :: dataframe
  var :: dataframe
  uns :: "string \<rightharpoonup> string"
  layers :: "string \<rightharpoonup> matrix"
  obsm :: "string \<rightharpoonup> matrix"
  obsp :: "string \<rightharpoonup> matrix"
  varm :: "string \<rightharpoonup> matrix"
  varp :: "string \<rightharpoonup> matrix"
  raw :: "matrix option"

definition n_obs :: "anndata \<Rightarrow> nat" where
  "n_obs a = length (index (obs a))"

definition n_vars :: "anndata \<Rightarrow> nat" where
  "n_vars a = length (index (var a))"

text \<open>
  Reading a key of \<open>layers\<close> or \<open>obsm\<close> that is absent raises \<open>KeyError\<close>. Assignments
  go through the library's checks: \<open>X\<close> and every layer must have the shape
  \<open>(n_obs, n_vars)\<close>, an \<open>obsm\<close> entry must have \<open>n_obs\<close> rows; otherwise the
  assignment raises \<open>ValueError\<close>.
\<close>

definition get_layer :: "anndata \<Rightarrow> string \<Rightarrow> error + matrix" where
  "get_layer a k = (case layers a k of None \<Rightarrow> Inl (KeyError k) | Some m \<Rightarrow> Inr m)"

definition get_obsm :: "anndata \<Rightarrow> string \<Rightarrow> error + matrix" where
  "get_obsm a k = (case obsm a k of None \<Rightarrow> Inl (KeyError k) | Some m \<Rightarrow> Inr m)"

definition set_X :: "anndata \<Rightarrow> matrix \<Rightarrow> error + anndata" where
  "set_X a m = (if shape m = (n_obs a, n_vars a) then Inr (a\<lparr>X := m\<rparr>) else Inl ValueError)"

definition set_layer :: "anndata \<Rightarrow> string \<Rightarrow> matrix \<Rightarrow> error + anndata" where
  "set_layer a k m =
     (if shape m = (n_obs a, n_vars a) then Inr (a\<lparr>layers := (layers a)(k \<mapsto> m)\<rparr>)
      else Inl ValueError)"

definition set_obsm :: "anndata \<Rightarrow> string \<Rightarrow> matrix \<Rightarrow> error + anndata" where
  "set_obsm a k m =
     (if fst (shape m) = n_obs a then Inr (a\<lparr>obsm := (obsm a)(k \<mapsto> m)\<rparr>)
      else Inl ValueError)"

text \<open>
  The files: \<open>read_h5ad\<close> of a path that holds no file raises; \<open>write_h5ad\<close> stores the
  object under the path, or raises when the path cannot be written (\<open>can_write\<close>).
  \<open>normalize\<close> is dynamo's \<open>normalize_cell_expr_by_size_factors\<close>, which works on the
  object in place: it is given the object and returns the object it leaves, or raises.
\<close>

record h5ad_env =
  can_write :: "string \<Rightarrow> bool"
  normalize :: "anndata \<Rightarrow> error + anndata"

definition read_h5ad :: "(string \<rightharpoonup> anndata) \<Rightarrow> string \<Rightarrow> error + anndata" where
  "read_h5ad store filename = (case store filename of None \<Rightarrow> Inl OSError | Some a \<Rightarrow> Inr a)"

definition write_h5ad ::
  "h5ad_env \<Rightarrow> (string \<rightharpoonup> anndata) \<Rightarrow> string \<Rightarrow> anndata \<Rightarrow> error + (string \<rightharpoonup> anndata)"
where
  "write_h5ad env store filename a =
     (if can_write env filename then Inr (store(filename \<mapsto> a)) else Inl OSError)"

subsection \<open>\<open>anndata_preprocess\<close>\<close>

text \<open>
  \<^verbatim>\<open>
  def anndata_preprocess(path, output_path, X_counts="X_counts",
                         X_log1p="X_log1p", spatial_key="3d_align_spatial"):
      adata = ad.read_h5ad(filename=path)
      X_counts = (adata.layers[X_counts].copy() if issparse(adata.layers[X_counts])
                  else csr_matrix(adata.layers[X_counts]))
      if not (X_log1p is None):
          X_log1p = (adata.layers[X_log1p].copy() if issparse(adata.layers[X_log1p])
                     else csr_matrix(adata.layers[X_log1p]))
      else:
          import dynamo as dyn
          adata.X = X_counts.copy()
          dyn.pp.normalize_cell_expr_by_size_factors(adata=adata, layers="X", skip_log=False)
          X_log1p = csr_matrix(adata.X.copy())
      spatial_coords = adata.obsm[spatial_key]
      del adata.uns, adata.layers, adata.obsm, adata.obsp, adata.varm
      adata.X = X_counts
      adata.layers["X_log1p"] = X_log1p
      adata.obsm["spatial"] = spatial_coords
      adata.write_h5ad(output_path, compression="gzip")
      return adata
  \<close>
  The model returns the object together with the files after the call.
\<close>

definition sparse_copy :: "matrix \<Rightarrow> matrix" where
  "sparse_copy m = (if issparse m then copy m else csr_matrix m)"

definition log1p_matrix :: "h5ad_env \<Rightarrow> anndata \<Rightarrow> matrix \<Rightarrow> string option \<Rightarrow> error + (anndata \<times> matrix)" where
  "log1p_matrix env adata X_counts X_log1p =
     (case X_log1p of
        Some k \<Rightarrow> bind_err (get_layer adata k) (\<lambda>l. Inr (adata, sparse_copy l))
      | None \<Rightarrow>
          bind_err (set_X adata (copy X_counts)) (\<lambda>adata1.
          bind_err (normalize env adata1) (\<lambda>adata2.
          Inr (adata2, csr_matrix (copy (X adata2))))))"

definition del_slots :: "anndata \<Rightarrow> anndata" where
  "del_slots a =
     a\<lparr>uns := Map.empty, layers := Map.empty, obsm := Map.empty, obsp := Map.empty,
       varm := Map.empty\<rparr>"

definition anndata_preprocess ::
  "h5ad_env \<Rightarrow> (string \<rightharpoonup> anndata) \<Rightarrow> string \<Rightarrow> string \<Rightarrow> string \<Rightarrow> string option \<Rightarrow> string
   \<Rightarrow> error + (anndata \<times> (string \<rightharpoonup> anndata))"
where
  "anndata_preprocess env store path output_path X_counts X_log1p spatial_key =
     bind_err (read_h5ad store path) (\<lambda>adata.
     bind_err (get_layer adata X_counts) (\<lambda>counts_layer.
     let X_counts' = sparse_copy counts_layer in
     bind_err (log1p_matrix env adata X_counts' X_log1p) (\<lambda>(adata', X_log1p').
     bind_err (get_obsm adata' spatial_key) (\<lambda>spatial_coords.
     bind_err (set_X (del_slots adata') X_counts') (\<lambda>a1.
     bind_err (set_layer a1 ''X_log1p'' X_log1p') (\<lambda>a2.
     bind_err (set_obsm a2 ''spatial'' spatial_coords) (\<lambda>a3.
     bind_err (write_h5ad env store output_path a3) (\<lambda>store'.
     Inr (a3, store')))))))))"

text \<open>
  A concrete data set for runs: two cells, one gene, a dense counts layer, a dense log
  layer and 3D coordinates; and a normalisation that, as dynamo's does, records a size
  factor per cell in \<open>obs\<close> and replaces \<open>X\<close> by the normalised logarithms.
\<close>

definition example_adata :: anndata where
  "example_adata =
     \<lparr> X = \<lparr>issparse = False, shape = (2, 1), entries = [[0], [0]]\<rparr>,
       obs = \<lparr>index = [''cell0'', ''cell1''], columns = [(''anno'', [''a'', ''b''])]\<rparr>,
       var = \<lparr>index = [''gene0''], columns = []\<rparr>,
       uns = [''note'' \<mapsto> ''raw''],
       layers = [''X_counts'' \<mapsto> \<lparr>issparse = False, shape = (2, 1), entries = [[3], [1]]\<rparr>,
                 ''X_log1p'' \<mapsto> \<lparr>issparse = False, shape = (2, 1), entries = [[2], [1]]\<rparr>],
       obsm = [''3d_align_spatial'' \<mapsto>
                 \<lparr>issparse = False, shape = (2, 3), entries = [[0, 0, 0], [1, 2, 3]]\<rparr>],
       obsp = Map.empty, varm = Map.empty, varp = Map.empty, raw = None \<rparr>"

definition example_h5ad_env :: h5ad_env where
  "example_h5ad_env =
     \<lparr> can_write = (\<lambda>p. True),
       normalize = (\<lambda>a. Inr (a
          \<lparr> X := \<lparr>issparse = False, shape = shape (X a), entries = [[2], [1]]\<rparr>,
            obs := (obs a)\<lparr>columns := columns (obs a) @ [(''Size_Factor'', [''1.5'', ''0.5''])]\<rparr> \<rparr>)) \<rparr>"

section \<open>pv\_morphogenesis.py: vector field, trajectories and animation stages\<close>

subsection \<open>The libraries\<close>

text \<open>
  \<open>morphogenesis\<close> is a sequence of calls into spateo, dynamo and scipy on an AnnData
  object \<open>'ad\<close>, point-cloud models \<open>'pd\<close> and a vector field \<open>'vf\<close>. What the calls do
  is not part of the repository; the record below gives each call as a function that
  returns its result or the exception it raises. Calls that work in place return the
  object they leave. Numbers that Python holds as floats are real numbers here: rounding
  is not modelled.

  \<^item> \<open>import_spateo\<close>: the outcome of the statement \<open>import spateo\<close>, which succeeds
    or raises (\<open>ImportError\<close> when the package or one of its own imports is missing, any
    other exception when the package fails while it loads);
  \<^item> \<open>obs_subset a m\<close>: \<open>a[m.point_data["obs_index"], :]\<close>;
  \<^item> \<open>store_vectors a m\<close>: the three assignments of \<open>V_z\<close>, \<open>vectors\<close> and \<open>V_Z\<close>
    from \<open>a.uns["VecFld_morpho"]["V"]\<close>;
  \<^item> \<open>copy_obs a m src dst\<close>:
    \<open>m.point_data[dst] = np.asarray(a[np.asarray(m.point_data["obs_index"])].obs[src])\<close>;
  \<^item> \<open>fate_t a\<close>: the dictionary \<open>a.uns["fate_morpho"]["t"]\<close> as lines 148 to 151 read
    it, the keys as integers and the values as rows of finite numbers; it raises where
    \<open>np.asarray\<close> or \<open>int\<close> raise there (keys that are not integers, in recent numpy
    rows of different lengths, a time that is NaN or infinite);
  \<^item> \<open>from_adata a\<close>: \<open>SvcVectorField().from_adata(a, basis="morpho")\<close>;
  \<^item> \<open>init_states a\<close>: \<open>a.uns["fate_morpho"]["init_states"]\<close>, each row as a list;
  \<^item> \<open>obs_index a\<close>: \<open>a.obs.index.tolist()\<close>;
  \<^item> \<open>odeint f x dt\<close>: \<open>odeint(lambda x, _: f.func(x), x, [0, dt])[1].tolist()\<close>;
  \<^item> the other fields are the functions of \<open>st.tdr\<close> of the same name.
\<close>

record ('ad, 'pd, 'vf) libraries =
  import_spateo :: "error + unit"
  obs_subset :: "'ad \<Rightarrow> 'pd \<Rightarrow> error + 'ad"
  cell_directions :: "'ad \<Rightarrow> 'ad \<Rightarrow> real \<Rightarrow> error + 'ad"
  morphofield :: "'ad \<Rightarrow> error + 'ad"
  store_vectors :: "'ad \<Rightarrow> 'pd \<Rightarrow> error + ('ad \<times> 'pd)"
  construct_field :: "'pd \<Rightarrow> int \<Rightarrow> error + 'pd"
  morphopath :: "'ad \<Rightarrow> int \<Rightarrow> error + 'ad"
  construct_trajectory :: "'ad \<Rightarrow> int \<Rightarrow> error + 'pd"
  morphofield_acceleration :: "'ad \<Rightarrow> error + 'ad"
  morphofield_curvature :: "'ad \<Rightarrow> error + 'ad"
  morphofield_curl :: "'ad \<Rightarrow> error + 'ad"
  morphofield_torsion :: "'ad \<Rightarrow> error + 'ad"
  copy_obs :: "'ad \<Rightarrow> 'pd \<Rightarrow> string \<Rightarrow> string \<Rightarrow> error + 'pd"
  fate_t :: "'ad \<Rightarrow> error + (int \<times> real list) list"
  from_adata :: "'ad \<Rightarrow> error + 'vf"
  init_states :: "'ad \<Rightarrow> error + real list list"
  obs_index :: "'ad \<Rightarrow> string list"
  odeint :: "'vf \<Rightarrow> real list \<Rightarrow> real \<Rightarrow> error + real list"

subsection \<open>The time vector\<close>

text \<open>
  \<^verbatim>\<open>
  t_ind = np.asarray(list(source_adata.uns["fate_morpho"]["t"].keys()), dtype=int)
  t_sort_ind = np.argsort(t_ind)
  t = np.asarray(list(source_adata.uns["fate_morpho"]["t"].values()))[t_sort_ind]
  flats = np.unique([int(item) for sublist in t for item in sublist])
  flats = np.hstack((0, flats))
  flats = np.sort(flats) if 3000 is None else np.sort(flats[flats <= 3000])
  time_vec = np.logspace(0, np.log10(max(flats) + 1), 100) - 1
  \<close>
  \<open>int\<close> of a float truncates towards zero. \<open>np.unique\<close> returns the distinct values in
  increasing order. \<open>max\<close> of an empty sequence raises \<open>ValueError\<close>.
  \<open>np.logspace(start, stop, num)\<close> is \<open>10 ** np.linspace(start, stop, num)\<close>, and
  \<open>np.linspace\<close> gives \<open>start + i * (stop - start) / (num - 1)\<close> for \<open>i < num\<close>.
\<close>

definition py_int :: "real \<Rightarrow> int" where
  "py_int x = (if 0 \<le> x then \<lfloor>x\<rfloor> else \<lceil>x\<rceil>)"

definition np_unique :: "int list \<Rightarrow> int list" where
  "np_unique xs = sort (remdups xs)"

definition py_max :: "int list \<Rightarrow> error + int" where
  "py_max xs = (case xs of [] \<Rightarrow> Inl ValueError | y # ys \<Rightarrow> Inr (fold max ys y))"

definition linspace :: "real \<Rightarrow> real \<Rightarrow> nat \<Rightarrow> real list" where
  "linspace start stop num = map (\<lambda>i. start + real i * ((stop - start) / real (num - 1))) [0..<num]"

definition logspace :: "real \<Rightarrow> real \<Rightarrow> nat \<Rightarrow> real list" where
  "logspace start stop num = map (\<lambda>y. 10 powr y) (linspace start stop num)"

definition flats_of :: "(int \<times> real list) list \<Rightarrow> int list" where
  "flats_of t_items =
     (let t = map snd (sort_key fst t_items);
          flats = np_unique (map py_int (concat t));
          flats = 0 # flats
      in sort (filter (\<lambda>x. x \<le> 3000) flats))"

definition time_vector :: "(int \<times> real list) list \<Rightarrow> error + real list" where
  "time_vector t_items =
     bind_err (py_max (flats_of t_items)) (\<lambda>m.
       Inr (map (\<lambda>v. v - 1) (logspace 0 (log 10 (real_of_int (m + 1))) 100)))"

text \<open>
  The value that the definitions above give to entry \<open>i\<close> of the time vector when the largest
  retained time is \<open>m\<close>.
\<close>

definition ideal_time :: "int \<Rightarrow> nat \<Rightarrow> real" where
  "ideal_time m i = 10 powr (real i * (log 10 (real_of_int (m + 1)) / 99)) - 1"

subsection \<open>The stages of the animation\<close>

text \<open>
  \<^verbatim>\<open>
  init_states = source_adata.uns["fate_morpho"]["init_states"]
  pts = [i.tolist() for i in init_states]
  stages_X = [source_adata.obs.index.tolist()]
  for i in range(100):
      pts = [displace(cur_pts, time_vec[i])[1].tolist() for cur_pts in pts]
      stages_X.append(pts)
  \<close>
  The list \<open>stages_X\<close> starts with the list of cell names; every later element is a list of
  positions, one per cell.
\<close>

datatype stage = Index "string list" | Positions "real list list"


fun map_err :: "('a \<Rightarrow> error + 'b) \<Rightarrow> 'a list \<Rightarrow> error + 'b list" where
  "map_err f [] = Inr []"
| "map_err f (x # xs) = bind_err (f x) (\<lambda>y. bind_err (map_err f xs) (\<lambda>ys. Inr (y # ys)))"

fun stages_loop ::
  "(real list \<Rightarrow> real \<Rightarrow> error + real list) \<Rightarrow> real list \<Rightarrow> nat list \<Rightarrow> real list list \<Rightarrow> stage list
   \<Rightarrow> error + stage list"
where
  "stages_loop displace time_vec [] pts stages_X = Inr stages_X"
| "stages_loop displace time_vec (i # is) pts stages_X =
     bind_err (map_err (\<lambda>cur_pts. displace cur_pts (time_vec ! i)) pts) (\<lambda>pts'.
       stages_loop displace time_vec is pts' (stages_X @ [Positions pts']))"

subsection \<open>\<open>morphogenesis\<close>\<close>

definition install_message :: string where
  "install_message =
     ''You need to install the package `spateo`. '' @ [CHR 0x0A] @
     ''Install spateo via `pip install spateo-release`''"

fun copy_obs_all ::
  "('ad, 'pd, 'vf) libraries \<Rightarrow> 'ad \<Rightarrow> 'pd \<Rightarrow> (string \<times> string) list \<Rightarrow> error + 'pd"
where
  "copy_obs_all lib a m [] = Inr m"
| "copy_obs_all lib a m ((src, dst) # rest) =
     bind_err (copy_obs lib a m src dst) (\<lambda>m'. copy_obs_all lib a m' rest)"

text \<open>
  Lines 27 to 145 of the function: the subset of the source data, the mapping, the vector
  field, the trajectories, the four derived quantities and their copies onto the three
  models.
\<close>

definition analysis ::
  "('ad, 'pd, 'vf) libraries \<Rightarrow> 'ad \<Rightarrow> 'ad \<Rightarrow> 'pd \<Rightarrow> real \<Rightarrow> int \<Rightarrow> int \<Rightarrow> int
   \<Rightarrow> error + ('ad \<times> 'pd \<times> 'pd \<times> 'pd)"
where
  "analysis lib source_adata target_adata source_pc_model mapping_factor morphofield_factor
     morphopath_t_end morphopath_sampling =
     bind_err (obs_subset lib source_adata source_pc_model) (\<lambda>a0.
     bind_err (cell_directions lib a0 target_adata mapping_factor) (\<lambda>a1.
     bind_err (morphofield lib a1) (\<lambda>a2.
     bind_err (store_vectors lib a2 source_pc_model) (\<lambda>(a3, pc1).
     bind_err (construct_field lib pc1 morphofield_factor) (\<lambda>pc_vectors.
     bind_err (morphopath lib a3 morphopath_t_end) (\<lambda>a4.
     bind_err (construct_trajectory lib a4 morphopath_sampling) (\<lambda>trajectory_model.
     bind_err (morphofield_acceleration lib a4) (\<lambda>a5.
     bind_err (morphofield_curvature lib a5) (\<lambda>a6.
     bind_err (morphofield_curl lib a6) (\<lambda>a7.
     bind_err (morphofield_torsion lib a7) (\<lambda>a8.
     bind_err (copy_obs_all lib a8 pc1
        [(''acceleration'', ''acceleration''), (''curvature'', ''curvature''),
         (''curl'', ''curl''), (''torsion'', ''torsion'')]) (\<lambda>pc2.
     bind_err (copy_obs_all lib a8 pc_vectors
        [(''V_z'', ''V_Z''), (''acceleration'', ''acceleration''), (''curvature'', ''curvature''),
         (''curl'', ''curl''), (''torsion'', ''torsion'')]) (\<lambda>pc_vectors'.
     bind_err (copy_obs_all lib a8 trajectory_model
        [(''V_z'', ''V_Z''), (''acceleration'', ''acceleration''), (''curvature'', ''curvature''),
         (''curl'', ''curl''), (''torsion'', ''torsion'')]) (\<lambda>trajectory_model'.
     Inr (a8, pc2, pc_vectors', trajectory_model')))))))))))))))"

text \<open>Lines 147 to 165: the time vector, the vector field and the hundred stages.\<close>

definition animation_stages :: "('ad, 'pd, 'vf) libraries \<Rightarrow> 'ad \<Rightarrow> error + stage list" where
  "animation_stages lib source_adata =
     bind_err (fate_t lib source_adata) (\<lambda>t_items.
     bind_err (time_vector t_items) (\<lambda>time_vec.
     bind_err (from_adata lib source_adata) (\<lambda>vf.
     bind_err (init_states lib source_adata) (\<lambda>pts.
     stages_loop (odeint lib vf) time_vec [0..<100] pts [Index (obs_index lib source_adata)]))))"

text \<open>
  \<^verbatim>\<open>
  def morphogenesis(source_adata, target_adata, source_pc_model, mapping_factor=0.001,
                    morphofield_factor=3000, morphopath_t_end=10000,
                    morphopath_sampling=500):
      try:
          import spateo as st
      except ImportError:
          raise ImportError("You need to install the package `spateo`. \nInstall spateo "
                            "via `pip install spateo-release`")
      ...
      return source_pc_model, pc_vectors, trajectory_model, stages_X
  \<close>
  The handler catches \<open>ImportError\<close> only and replaces it by one with the installation
  message; any other exception of the import leaves the function as it is.
\<close>

definition morphogenesis ::
  "('ad, 'pd, 'vf) libraries \<Rightarrow> 'ad \<Rightarrow> 'ad \<Rightarrow> 'pd \<Rightarrow> real \<Rightarrow> int \<Rightarrow> int \<Rightarrow> int
   \<Rightarrow> error + ('pd \<times> 'pd \<times> 'pd \<times> stage list)"
where
  "morphogenesis lib source_adata target_adata source_pc_model mapping_factor morphofield_factor
     morphopath_t_end morphopath_sampling =
     (case import_spateo lib of
        Inl (ImportError msg) \<Rightarrow> Inl (ImportError install_message)
      | Inl e \<Rightarrow> Inl e
      | Inr st \<Rightarrow>
          bind_err (analysis lib source_adata target_adata source_pc_model mapping_factor
                      morphofield_factor morphopath_t_end morphopath_sampling)
            (\<lambda>(source_adata', source_pc_model', pc_vectors, trajectory_model).
          bind_err (animation_stages lib source_adata') (\<lambda>stages_X.
          Inr (source_pc_model', pc_vectors, trajectory_model, stages_X))))"

text \<open>
  Libraries for a concrete run, on data without content (\<open>unit\<close>): every call succeeds,
  there are two cells with four trajectory times each, the retained times reach 408, and a
  displacement over \<open>dt\<close> moves every coordinate by \<open>dt\<close>.
\<close>

definition example_libraries :: "(unit, unit, unit) libraries" where
  "example_libraries =
     \<lparr> import_spateo = Inr (),
       obs_subset = (\<lambda>a m. Inr ()),
       cell_directions = (\<lambda>a b alpha. Inr ()),
       morphofield = (\<lambda>a. Inr ()),
       store_vectors = (\<lambda>a m. Inr ((), ())),
       construct_field = (\<lambda>m factor. Inr ()),
       morphopath = (\<lambda>a t_end. Inr ()),
       construct_trajectory = (\<lambda>a n_sampling. Inr ()),
       morphofield_acceleration = (\<lambda>a. Inr ()),
       morphofield_curvature = (\<lambda>a. Inr ()),
       morphofield_curl = (\<lambda>a. Inr ()),
       morphofield_torsion = (\<lambda>a. Inr ()),
       copy_obs = (\<lambda>a m src dst. Inr ()),
       fate_t = (\<lambda>a. Inr [(1, [0, 204.1, 408.2, 5000]), (0, [0, 3.9, - 2.5, 7])]),
       from_adata = (\<lambda>a. Inr ()),
       init_states = (\<lambda>a. Inr [[0, 0, 0], [1, 2, 3]]),
       obs_index = (\<lambda>a. [''cell0'', ''cell1'']),
       odeint = (\<lambda>f x dt. Inr (map (\<lambda>c. c + dt) x)) \<rparr>"

subsection \<open>Where exceptions come from\<close>

text \<open>
  \<open>library_errors lib\<close> is the set of exceptions that some library call of \<open>lib\<close> raises
  on some arguments.
\<close>

inductive_set library_errors :: "('ad, 'pd, 'vf) libraries \<Rightarrow> error set"
  for lib :: "('ad, 'pd, 'vf) libraries"
where
  obs_subset: "obs_subset lib a m = Inl e \<Longrightarrow> e \<in> library_errors lib"
| cell_directions: "cell_directions lib a b alpha = Inl e \<Longrightarrow> e \<in> library_errors lib"
| morphofield: "morphofield lib a = Inl e \<Longrightarrow> e \<in> library_errors lib"
| store_vectors: "store_vectors lib a m = Inl e \<Longrightarrow> e \<in> library_errors lib"
| construct_field: "construct_field lib m factor = Inl e \<Longrightarrow> e \<in> library_errors lib"
| morphopath: "morphopath lib a t_end = Inl e \<Longrightarrow> e \<in> library_errors lib"
| construct_trajectory: "construct_trajectory lib a n_sampling = Inl e \<Longrightarrow> e \<in> library_errors lib"
| morphofield_acceleration: "morphofield_acceleration lib a = Inl e \<Longrightarrow> e \<in> library_errors lib"
| morphofield_curvature: "morphofield_curvature lib a = Inl e \<Longrightarrow> e \<in> library_errors lib"
| morphofield_curl: "morphofield_curl lib a = Inl e \<Longrightarrow> e \<in> library_errors lib"
| morphofield_torsion: "morphofield_torsion lib a = Inl e \<Longrightarrow> e \<in> library_errors lib"
| copy_obs: "copy_obs lib a m src dst = Inl e \<Longrightarrow> e \<in> library_errors lib"
| fate_t: "fate_t lib a = Inl e \<Longrightarrow> e \<in> library_errors lib"
| from_adata: "from_adata lib a = Inl e \<Longrightarrow> e \<in> library_errors lib"
| init_states: "init_states lib a = Inl e \<Longrightarrow> e \<in> library_errors lib"
| odeint: "odeint lib f x dt = Inl e \<Longrightarrow> e \<in> library_errors lib"

subsection \<open>The import of \<open>Literal\<close> in pv\_actors.py\<close>

text \<open>
  \<^verbatim>\<open>
  try:
      from typing import Literal
  except ImportError:
      from typing_extensions import Literal
  \<close>
  \<open>available modname nm\<close> says that the module can be imported and has the name \<open>nm\<close>;
  \<open>from modname import nm\<close> raises \<open>ImportError\<close> otherwise. The result is the module
  that provided the name.
\<close>

definition import_from :: "(string \<Rightarrow> string \<Rightarrow> bool) \<Rightarrow> string \<Rightarrow> string \<Rightarrow> error + string" where
  "import_from available modname nm =
     (if available modname nm then Inr modname
      else Inl (ImportError (''cannot import name '' @ nm @ '' from '' @ modname)))"

definition import_Literal :: "(string \<Rightarrow> string \<Rightarrow> bool) \<Rightarrow> error + string" where
  "import_Literal available =
     (case import_from available ''typing'' ''Literal'' of
        Inr m \<Rightarrow> Inr m
      | Inl (ImportError msg) \<Rightarrow> import_from available ''typing_extensions'' ''Literal''
      | Inl e \<Rightarrow> Inl e)"

section \<open>Properties of the actor tree\<close>

subsection \<open>\<open>str\<close> is injective\<close>

lemma digit_char_inj: "a < 10 \<Longrightarrow> b < 10 \<Longrightarrow> digit_char a = digit_char b \<Longrightarrow> a = b"
  unfolding digit_char_def
  by (subst (asm) nth_eq_iff_index_eq) simp_all

lemma digit_char_not_minus: "d < 10 \<Longrightarrow> digit_char d \<noteq> CHR ''-''"
proof -
  assume "d < 10"
  then have "digit_char d \<in> set ''0123456789''"
    unfolding digit_char_def by (intro nth_mem) simp
  then show ?thesis by auto
qed

lemma str_nat_not_Nil: "str_nat n \<noteq> []"
  by (subst str_nat.simps) simp

lemma str_nat_no_minus: "CHR ''-'' \<notin> set (str_nat n)"
proof (induction n rule: str_nat.induct)
  case (1 n)
  show ?case
  proof (cases "n < 10")
    case True
    then show ?thesis using digit_char_not_minus[of n] by (subst str_nat.simps) auto
  next
    case False
    then show ?thesis using 1 digit_char_not_minus[of "n mod 10"]
      by (subst str_nat.simps) auto
  qed
qed

lemma str_nat_inj: "str_nat n = str_nat m \<Longrightarrow> n = m"
proof (induction n arbitrary: m rule: str_nat.induct)
  case (1 n)
  show ?case
  proof (cases "n < 10")
    case n: True
    show ?thesis
    proof (cases "m < 10")
      case True
      with n 1(2) show ?thesis
        by (simp add: str_nat.simps[of n] str_nat.simps[of m] digit_char_inj)
    next
      case False
      with n 1(2) show ?thesis
        using str_nat_not_Nil[of "m div 10"]
        by (simp add: str_nat.simps[of n] str_nat.simps[of m] Cons_eq_append_conv)
    qed
  next
    case n: False
    show ?thesis
    proof (cases "m < 10")
      case True
      with n 1(2) show ?thesis
        using str_nat_not_Nil[of "n div 10"]
        by (simp add: str_nat.simps[of n] str_nat.simps[of m] append_eq_Cons_conv)
    next
      case False
      with n 1(2) have a: "str_nat (n div 10) = str_nat (m div 10)"
        and b: "digit_char (n mod 10) = digit_char (m mod 10)"
        by (simp_all add: str_nat.simps[of n] str_nat.simps[of m])
      from 1(1)[OF n a] have "n div 10 = m div 10" .
      moreover from b have "n mod 10 = m mod 10" by (intro digit_char_inj) simp_all
      ultimately show ?thesis by (metis div_mult_mod_eq)
    qed
  qed
qed

lemma str_inj: "str i = str j \<Longrightarrow> i = j"
proof -
  assume eq: "str i = str j"
  have hd_nat: "hd (str_nat n) \<noteq> CHR ''-''" for n
    using str_nat_no_minus[of n] str_nat_not_Nil[of n] by (cases "str_nat n") auto
  show ?thesis
  proof (cases "i < 0")
    case i: True
    show ?thesis
    proof (cases "j < 0")
      case True
      with i eq have "nat (- i) = nat (- j)" by (simp add: str_def str_nat_inj)
      with i True show ?thesis by simp
    next
      case False
      with i eq have "str_nat (nat j) = CHR ''-'' # str_nat (nat (- i))" by (simp add: str_def)
      with hd_nat[of "nat j"] show ?thesis by simp
    qed
  next
    case i: False
    show ?thesis
    proof (cases "j < 0")
      case True
      with i eq have "str_nat (nat i) = CHR ''-'' # str_nat (nat (- j))" by (simp add: str_def)
      with hd_nat[of "nat i"] show ?thesis by simp
    next
      case False
      with i eq have "nat i = nat j" by (simp add: str_def str_nat_inj)
      with i False show ?thesis by simp
    qed
  qed
qed

subsection \<open>The tree built by \<open>generate_actors_tree\<close>\<close>

lemma standard_tree_Some:
  "standard_tree actors (Some names) b =
     Inr (set_visibilities actors, names, map (tree_node names b) [0..<length names])"
  by (simp add: standard_tree_def)

lemma length_set_visibilities: "length (set_visibilities actors) = length actors"
  by (simp add: set_visibilities_def)

lemma generate_actors_tree_Some:
  "generate_actors_tree (Some pa) (Some pn) (Some ma) (Some mn) =
     Inr (set_visibilities pa @ set_visibilities ma, pn @ mn,
          map (tree_node pn 0) [0..<length pn] @ map (tree_node mn (int (length pa))) [0..<length mn])"
  by (simp add: generate_actors_tree_def standard_tree_Some bind_err_def some3_def list_add_def
      length_set_visibilities)

lemma visible_tree_node: "visible (tree_node names b i) = (i = 0)"
  by (simp add: tree_node_def)

lemma map_visible_tree:
  "0 < n \<Longrightarrow> map (\<lambda>i. visible (tree_node names b i)) [0..<n] = True # replicate (n - 1) False"
proof -
  assume "0 < n"
  then have n: "[0..<n] = 0 # [1..<n]" by (simp add: upt_conv_Cons)
  have "map (\<lambda>i. visible (tree_node names b i)) [1..<n] = replicate (n - 1) False"
    by (rule nth_equalityI) (simp_all add: visible_tree_node)
  with n show ?thesis by (simp add: visible_tree_node)
qed

text \<open>
  Claim C8. \<open>generate_actors_tree\<close> returns normally only when both \<open>pc_actors\<close>
  and \<open>mesh_actors\<close> are lists: whenever one of them (or both) is \<open>None\<close>, the call
  raises \<open>TypeError\<close>, whatever the two name lists are.
\<close>

theorem generate_actors_tree_None:
  "pc_actors = None \<or> mesh_actors = None \<Longrightarrow>
   generate_actors_tree pc_actors pc_actor_ids mesh_actors mesh_actor_ids = Inl TypeError"
  by (cases pc_actors; cases mesh_actors; cases pc_actor_ids; cases mesh_actor_ids)
     (simp_all add: generate_actors_tree_def standard_tree_def bind_err_def some3_def list_add_def)

theorem generate_actors_tree_None_witness:
  "generate_actors_tree None None (Some [\<lparr>handle = 0, visibility = True\<rparr>]) (Some [''mesh'']) = Inl TypeError
   \<and> generate_actors_tree (Some [\<lparr>handle = 0, visibility = True\<rparr>]) (Some [''pc'']) None None = Inl TypeError
   \<and> generate_actors_tree None None None None = Inl TypeError"
  using generate_actors_tree_None[of None "Some [\<lparr>handle = 0, visibility = True\<rparr>]" None "Some [''mesh'']"]
    generate_actors_tree_None[of "Some [\<lparr>handle = 0, visibility = True\<rparr>]" None "Some [''pc'']" None]
    generate_actors_tree_None[of None None None None]
  by simp

text \<open>
  Claim C1 (amended). For \<open>k \<ge> 1\<close> point-cloud actors and \<open>m \<ge> 1\<close> mesh actors, each
  with as many names, the call succeeds and the combined tree has \<open>k + m\<close> entries of
  which exactly two are visible: the first entry of the point-cloud part (index \<open>0\<close>) and
  the first entry of the mesh part (index \<open>k\<close>). The other \<open>k + m - 2\<close> entries are not
  visible.
\<close>

theorem generate_actors_tree_visible:
  assumes "pc_actors \<noteq> []" and "mesh_actors \<noteq> []"
    and "length pc_actor_ids = length pc_actors" and "length mesh_actor_ids = length mesh_actors"
  shows "\<exists>actors ids tree.
           generate_actors_tree (Some pc_actors) (Some pc_actor_ids) (Some mesh_actors) (Some mesh_actor_ids)
             = Inr (actors, ids, tree)
         \<and> length tree = length pc_actors + length mesh_actors
         \<and> map visible tree =
             (True # replicate (length pc_actors - 1) False) @ (True # replicate (length mesh_actors - 1) False)
         \<and> length (filter visible tree) = 2
         \<and> length (filter (\<lambda>e. \<not> visible e) tree) = length pc_actors + length mesh_actors - 2"
proof -
  let ?k = "length pc_actors" and ?m = "length mesh_actors"
  let ?tree = "map (tree_node pc_actor_ids 0) [0..<length pc_actor_ids]
      @ map (tree_node mesh_actor_ids (int ?k)) [0..<length mesh_actor_ids]"
  from assms have k: "0 < ?k" and m: "0 < ?m" by simp_all
  have vis: "map visible ?tree = (True # replicate (?k - 1) False) @ (True # replicate (?m - 1) False)"
    using assms k m by (simp add: map_visible_tree o_def)
  have f: "length (filter visible ?tree) = length (filter (\<lambda>b. b) (map visible ?tree))"
    unfolding filter_map by (simp add: o_def)
  have g: "length (filter (\<lambda>e. \<not> visible e) ?tree) = length (filter (\<lambda>b. \<not> b) (map visible ?tree))"
    unfolding filter_map by (simp add: o_def)
  have "length (filter visible ?tree) = 2"
    unfolding f vis by simp
  moreover have "length (filter (\<lambda>e. \<not> visible e) ?tree) = ?k + ?m - 2"
    unfolding g vis using k m by (cases pc_actors; cases mesh_actors) simp_all
  moreover have "length ?tree = ?k + ?m" using assms by simp
  ultimately show ?thesis
    using vis by (simp add: generate_actors_tree_Some)
qed

lemma str_0: "str 0 = ''0''"
  by (simp add: str_def str_nat.simps[of 0] digit_char_def)

lemma distinct_str_upt: "distinct (map (\<lambda>i. str (int i + 1)) [0..<n])"
proof -
  have "inj_on (\<lambda>i. str (int i + 1)) (set [0..<n])"
    by (rule inj_onI) (drule str_inj, simp)
  then show ?thesis by (simp add: distinct_map)
qed

lemma id_tree_node: "id' (tree_node names b i) = str (b + 1 + int i)"
  by (simp add: tree_node_def)

lemma tree_concat_ids:
  "map id' (map (tree_node pn 0) [0..<k] @ map (tree_node mn (int k)) [0..<m]) =
     map (\<lambda>i. str (int i + 1)) [0..<k + m]"
proof (rule nth_equalityI)
  show "length (map id' (map (tree_node pn 0) [0..<k] @ map (tree_node mn (int k)) [0..<m])) =
    length (map (\<lambda>i. str (int i + 1)) [0..<k + m])" by simp
next
  fix i
  assume "i < length (map id' (map (tree_node pn 0) [0..<k] @ map (tree_node mn (int k)) [0..<m]))"
  then have i: "i < k + m" by simp
  show "map id' (map (tree_node pn 0) [0..<k] @ map (tree_node mn (int k)) [0..<m]) ! i =
      map (\<lambda>i. str (int i + 1)) [0..<k + m] ! i"
  proof (cases "i < k")
    case True
    with i show ?thesis by (simp add: nth_append id_tree_node add.commute)
  next
    case False
    then have "int k + 1 + int (i - k) = int i + 1" by simp
    with False i show ?thesis by (simp add: nth_append id_tree_node add.commute)
  qed
qed

text \<open>
  Claim C7 (amended). For non-empty actor lists, each with as many names, every entry of the
  tree carries \<open>id\<close>, \<open>parent\<close>, \<open>visible\<close> and \<open>name\<close>; the ids are the decimal
  strings of \<open>1 .. k + m\<close> and pairwise distinct; the first entry of each group (index
  \<open>0\<close> and index \<open>k\<close>) has parent \<open>"0"\<close>; every other entry's parent is the id of the
  first entry of its group; the names are the given names in order.
\<close>

theorem generate_actors_tree_ids_parents:
  assumes "pc_actors \<noteq> []" and "mesh_actors \<noteq> []"
    and "length pc_actor_ids = length pc_actors" and "length mesh_actor_ids = length mesh_actors"
  shows "\<exists>actors ids tree.
           generate_actors_tree (Some pc_actors) (Some pc_actor_ids) (Some mesh_actors) (Some mesh_actor_ids)
             = Inr (actors, ids, tree)
         \<and> length tree = length pc_actors + length mesh_actors
         \<and> map id' tree = map (\<lambda>i. str (int i + 1)) [0..<length pc_actors + length mesh_actors]
         \<and> distinct (map id' tree)
         \<and> parent (tree ! 0) = ''0''
         \<and> parent (tree ! length pc_actors) = ''0''
         \<and> (\<forall>i. 0 < i \<and> i < length pc_actors \<longrightarrow> parent (tree ! i) = id' (tree ! 0))
         \<and> (\<forall>i. length pc_actors < i \<and> i < length pc_actors + length mesh_actors \<longrightarrow>
                parent (tree ! i) = id' (tree ! length pc_actors))
         \<and> map name tree = pc_actor_ids @ mesh_actor_ids"
proof -
  let ?k = "length pc_actors" and ?m = "length mesh_actors"
  let ?tree = "map (tree_node pc_actor_ids 0) [0..<?k] @ map (tree_node mesh_actor_ids (int ?k)) [0..<?m]"
  from assms have k: "0 < ?k" and m: "0 < ?m" by simp_all
  have run: "generate_actors_tree (Some pc_actors) (Some pc_actor_ids) (Some mesh_actors) (Some mesh_actor_ids)
      = Inr (set_visibilities pc_actors @ set_visibilities mesh_actors, pc_actor_ids @ mesh_actor_ids, ?tree)"
    using assms by (simp add: generate_actors_tree_Some)
  have n0: "?tree ! 0 = tree_node pc_actor_ids 0 0"
    using k by (simp add: nth_append)
  have nk: "?tree ! ?k = tree_node mesh_actor_ids (int ?k) 0"
    using m by (simp add: nth_append)
  have len: "length ?tree = ?k + ?m" by simp
  have ids: "map id' ?tree = map (\<lambda>i. str (int i + 1)) [0..<?k + ?m]"
    by (rule tree_concat_ids)
  have dist: "distinct (map id' ?tree)"
    unfolding ids by (rule distinct_str_upt)
  have p0: "parent (?tree ! 0) = ''0''"
    unfolding n0 by (simp add: tree_node_def str_0)
  have pk: "parent (?tree ! ?k) = ''0''"
    unfolding nk by (simp add: tree_node_def str_0)
  have pc: "parent (?tree ! i) = id' (?tree ! 0)" if "0 < i" "i < ?k" for i
  proof -
    from that have "?tree ! i = tree_node pc_actor_ids 0 i" by (simp add: nth_append)
    with that show ?thesis unfolding n0 by (simp add: tree_node_def)
  qed
  have mesh: "parent (?tree ! i) = id' (?tree ! ?k)" if "?k < i" "i < ?k + ?m" for i
  proof -
    from that have "?tree ! i = tree_node mesh_actor_ids (int ?k) (i - ?k)" by (simp add: nth_append)
    with that show ?thesis unfolding nk by (simp add: tree_node_def)
  qed
  have names: "map name ?tree = pc_actor_ids @ mesh_actor_ids"
  proof -
    have "map (\<lambda>i. pc_actor_ids ! i) [0..<?k] = pc_actor_ids"
      unfolding assms(3)[symmetric] by (rule map_nth)
    moreover have "map (\<lambda>i. mesh_actor_ids ! i) [0..<?m] = mesh_actor_ids"
      unfolding assms(4)[symmetric] by (rule map_nth)
    ultimately show ?thesis by (simp add: tree_node_def o_def)
  qed
  show ?thesis
    apply (rule exI[of _ "set_visibilities pc_actors @ set_visibilities mesh_actors"])
    apply (rule exI[of _ "pc_actor_ids @ mesh_actor_ids"])
    apply (rule exI[of _ ?tree])
    apply (intro conjI allI impI)
            apply (rule run len ids dist p0 pk names)+
      apply (erule conjE, erule (1) pc)
     apply (erule conjE, erule (1) mesh)
    apply (rule names)
    done
qed


theorem generate_actors_tree_visible_witness:
  "[\<lparr>handle = 0, visibility = False\<rparr>, \<lparr>handle = 1, visibility = True\<rparr>] \<noteq> []
   \<and> [\<lparr>handle = 2, visibility = False\<rparr>] \<noteq> []
   \<and> (\<exists>actors ids tree.
         generate_actors_tree
           (Some [\<lparr>handle = 0, visibility = False\<rparr>, \<lparr>handle = 1, visibility = True\<rparr>])
           (Some [''pc0'', ''pc1''])
           (Some [\<lparr>handle = 2, visibility = False\<rparr>]) (Some [''mesh0''])
           = Inr (actors, ids, tree)
         \<and> map visible tree = [True, False, True])"
  using generate_actors_tree_visible
    [of "[\<lparr>handle = 0, visibility = False\<rparr>, \<lparr>handle = 1, visibility = True\<rparr>]"
        "[\<lparr>handle = 2, visibility = False\<rparr>]" "[''pc0'', ''pc1'']" "[''mesh0'']"]
  by auto

text \<open>
  Claim C1 as stated (exactly one visible entry) fails already for one point-cloud actor
  and one mesh actor: both entries of the tree are visible.
\<close>

theorem generate_actors_tree_two_visible:
  "generate_actors_tree
     (Some [\<lparr>handle = 0, visibility = False\<rparr>]) (Some [''pc''])
     (Some [\<lparr>handle = 1, visibility = False\<rparr>]) (Some [''mesh''])
   = Inr ([\<lparr>handle = 0, visibility = True\<rparr>, \<lparr>handle = 1, visibility = True\<rparr>],
          [''pc'', ''mesh''],
          [\<lparr>id' = ''1'', parent = ''0'', visible = True, name = ''pc''\<rparr>,
           \<lparr>id' = ''2'', parent = ''0'', visible = True, name = ''mesh''\<rparr>])
   \<and> length (filter visible
         [\<lparr>id' = ''1'', parent = ''0'', visible = True, name = ''pc''\<rparr>,
          \<lparr>id' = ''2'', parent = ''0'', visible = True, name = ''mesh''\<rparr>]) = 2"
  by code_simp

theorem generate_actors_tree_ids_parents_witness:
  "\<exists>actors ids tree.
      generate_actors_tree
        (Some [\<lparr>handle = 0, visibility = False\<rparr>, \<lparr>handle = 1, visibility = True\<rparr>])
        (Some [''pc0'', ''pc1''])
        (Some [\<lparr>handle = 2, visibility = False\<rparr>, \<lparr>handle = 3, visibility = False\<rparr>])
        (Some [''mesh0'', ''mesh1''])
        = Inr (actors, ids, tree)
      \<and> length tree = 4 \<and> distinct (map id' tree)
      \<and> parent (tree ! 0) = ''0'' \<and> parent (tree ! 2) = ''0''
      \<and> parent (tree ! 1) = id' (tree ! 0) \<and> parent (tree ! 3) = id' (tree ! 2)"
  using generate_actors_tree_ids_parents
    [of "[\<lparr>handle = 0, visibility = False\<rparr>, \<lparr>handle = 1, visibility = True\<rparr>]"
        "[\<lparr>handle = 2, visibility = False\<rparr>, \<lparr>handle = 3, visibility = False\<rparr>]"
        "[''pc0'', ''pc1'']" "[''mesh0'', ''mesh1'']"]
  by auto

text \<open>
  Claim C7 as stated asks every entry but the very first to point to the first entry of its
  group. The first mesh entry does not: its parent is \<open>"0"\<close>, its own id is \<open>"3"\<close>.
\<close>

theorem generate_actors_tree_mesh_root_parent:
  "generate_actors_tree
     (Some [\<lparr>handle = 0, visibility = False\<rparr>, \<lparr>handle = 1, visibility = False\<rparr>])
     (Some [''pc0'', ''pc1''])
     (Some [\<lparr>handle = 2, visibility = False\<rparr>, \<lparr>handle = 3, visibility = False\<rparr>])
     (Some [''mesh0'', ''mesh1''])
   = Inr ([\<lparr>handle = 0, visibility = True\<rparr>, \<lparr>handle = 1, visibility = False\<rparr>,
           \<lparr>handle = 2, visibility = True\<rparr>, \<lparr>handle = 3, visibility = False\<rparr>],
          [''pc0'', ''pc1'', ''mesh0'', ''mesh1''],
          [\<lparr>id' = ''1'', parent = ''0'', visible = True, name = ''pc0''\<rparr>,
           \<lparr>id' = ''2'', parent = ''1'', visible = False, name = ''pc1''\<rparr>,
           \<lparr>id' = ''3'', parent = ''0'', visible = True, name = ''mesh0''\<rparr>,
           \<lparr>id' = ''4'', parent = ''3'', visible = False, name = ''mesh1''\<rparr>])
   \<and> parent \<lparr>id' = ''3'', parent = ''0'', visible = True, name = ''mesh0''\<rparr>
       \<noteq> id' \<lparr>id' = ''3'', parent = ''0'', visible = True, name = ''mesh0''\<rparr>"
  by code_simp

section \<open>Properties of the local file manager\<close>






text \<open>
  Claim C10 (amended). With \<open>key\<close> a string: \<open>file_url(key, None)\<close> uses \<open>key\<close> as the
  file path, leaves the instance as it was and returns the data URL of that file;
  \<open>file_url(key, file_path)\<close> with a path, when it returns \<open>data\<close>, leaves an instance
  whose dictionary maps \<open>key\<close> to \<open>data\<close> and every other key to what it was. A readable
  file makes each call return. With \<open>key = None\<close> and a path, the call returns the data
  URL of the path and leaves the instance as it was; with both \<open>None\<close> it raises
  \<open>TypeError\<close>. A call that raises leaves the instance as it was.
\<close>

theorem file_url_frame:
  "snd (file_url fs self (Some key) None) = self
   \<and> fst (file_url fs self (Some key) None) = bind_err (to_path fs self (Some key)) (to_url fs)
   \<and> (\<forall>p content. to_path fs self (Some key) = Inr p \<and> read_bytes fs p = Some content \<longrightarrow>
         fst (file_url fs self (Some key) None)
           = Inr (''data:'' @ to_mime fs p @ '';base64,'' @ b64encode fs content))
   \<and> (\<forall>data. fst (file_url fs self (Some key) (Some file_path)) = Inr data \<longrightarrow>
         bind_err (to_path fs self (Some file_path)) (to_url fs) = Inr data
       \<and> assests (snd (file_url fs self (Some key) (Some file_path))) = (assests self)(key \<mapsto> data)
       \<and> assests (snd (file_url fs self (Some key) (Some file_path))) key = Some data
       \<and> (\<forall>k. k \<noteq> key \<longrightarrow>
             assests (snd (file_url fs self (Some key) (Some file_path))) k = assests self k)
       \<and> root (snd (file_url fs self (Some key) (Some file_path))) = root self)
   \<and> (\<forall>p content. to_path fs self (Some file_path) = Inr p \<and> read_bytes fs p = Some content \<longrightarrow>
         fst (file_url fs self (Some key) (Some file_path))
           = Inr (''data:'' @ to_mime fs p @ '';base64,'' @ b64encode fs content))
   \<and> snd (file_url fs self None (Some file_path)) = self
   \<and> fst (file_url fs self None (Some file_path)) = bind_err (to_path fs self (Some file_path)) (to_url fs)
   \<and> file_url fs self None None = (Inl TypeError, self)
   \<and> (\<forall>k p e. fst (file_url fs self k p) = Inl e \<longrightarrow> snd (file_url fs self k p) = self)"
proof -
  have keyed: "snd (file_url fs self (Some key) None) = self
   \<and> fst (file_url fs self (Some key) None) = bind_err (to_path fs self (Some key)) (to_url fs)
   \<and> (\<forall>p content. to_path fs self (Some key) = Inr p \<and> read_bytes fs p = Some content \<longrightarrow>
         fst (file_url fs self (Some key) None)
           = Inr (''data:'' @ to_mime fs p @ '';base64,'' @ b64encode fs content))
   \<and> (\<forall>data. fst (file_url fs self (Some key) (Some file_path)) = Inr data \<longrightarrow>
         bind_err (to_path fs self (Some file_path)) (to_url fs) = Inr data
       \<and> assests (snd (file_url fs self (Some key) (Some file_path))) = (assests self)(key \<mapsto> data)
       \<and> assests (snd (file_url fs self (Some key) (Some file_path))) key = Some data
       \<and> (\<forall>k. k \<noteq> key \<longrightarrow>
             assests (snd (file_url fs self (Some key) (Some file_path))) k = assests self k)
       \<and> root (snd (file_url fs self (Some key) (Some file_path))) = root self)
   \<and> (\<forall>p content. to_path fs self (Some file_path) = Inr p \<and> read_bytes fs p = Some content \<longrightarrow>
         fst (file_url fs self (Some key) (Some file_path))
           = Inr (''data:'' @ to_mime fs p @ '';base64,'' @ b64encode fs content))"
    by (auto simp: file_url_def bind_err_def to_url_def to_base64_def split: sum.splits option.splits)
  have unkeyed: "snd (file_url fs self None (Some file_path)) = self
   \<and> fst (file_url fs self None (Some file_path)) = bind_err (to_path fs self (Some file_path)) (to_url fs)"
    by (simp add: file_url_def split: sum.splits)
  have none: "file_url fs self None None = (Inl TypeError, self)"
    by (simp add: file_url_def to_path_def bind_err_def)
  have raised: "\<forall>k p e. fst (file_url fs self k p) = Inl e \<longrightarrow> snd (file_url fs self k p) = self"
    by (auto simp: file_url_def split: sum.splits option.splits if_splits)
  from keyed unkeyed none raised show ?thesis
    by (elim conjE, intro conjI) assumption+
qed

text \<open>
  Claim C10 as stated (every call with a path stores the URL under \<open>key\<close>) fails for
  \<open>key = None\<close>: the guard \<open>if key is not None\<close> skips the store, the URL is returned and
  the dictionary stays empty.
\<close>

theorem file_url_None_key_stores_nothing:
  "file_url example_files \<lparr>root = ''/srv'', assests = Map.empty\<rparr> None (Some ''/srv/a.png'')
     = (Inr ''data:image/png;base64,eHl6'', \<lparr>root = ''/srv'', assests = Map.empty\<rparr>)
   \<and> dom (assests (snd (file_url example_files \<lparr>root = ''/srv'', assests = Map.empty\<rparr> None
            (Some ''/srv/a.png'')))) = {}"
  by (simp add: file_url_def example_files_def to_path_def to_url_def to_base64_def bind_err_def)


theorem file_url_frame_witness:
  "snd (file_url example_files \<lparr>root = ''/srv'', assests = [''old'' \<mapsto> ''v'']\<rparr> (Some ''a.png'') None)
     = \<lparr>root = ''/srv'', assests = [''old'' \<mapsto> ''v'']\<rparr>
   \<and> fst (file_url example_files \<lparr>root = ''/srv'', assests = [''old'' \<mapsto> ''v'']\<rparr> (Some ''a.png'') None)
     = Inr ''data:image/png;base64,eHl6''
   \<and> fst (file_url example_files \<lparr>root = ''/srv'', assests = [''old'' \<mapsto> ''v'']\<rparr>
          (Some ''a.png'') (Some ''/srv/a.png''))
     = Inr ''data:image/png;base64,eHl6''
   \<and> assests (snd (file_url example_files \<lparr>root = ''/srv'', assests = [''old'' \<mapsto> ''v'']\<rparr>
          (Some ''a.png'') (Some ''/srv/a.png'')))
     = [''old'' \<mapsto> ''v'', ''a.png'' \<mapsto> ''data:image/png;base64,eHl6'']
   \<and> snd (file_url example_files \<lparr>root = ''/srv'', assests = [''old'' \<mapsto> ''v'']\<rparr>
          None (Some ''/srv/a.png''))
     = \<lparr>root = ''/srv'', assests = [''old'' \<mapsto> ''v'']\<rparr>
   \<and> file_url example_files \<lparr>root = ''/srv'', assests = [''old'' \<mapsto> ''v'']\<rparr> None None
     = (Inl TypeError, \<lparr>root = ''/srv'', assests = [''old'' \<mapsto> ''v'']\<rparr>)"
proof -
  let ?m = "\<lparr>root = ''/srv'', assests = [''old'' \<mapsto> ''v'']\<rparr>"
  note frame = file_url_frame [of example_files ?m "''a.png''" "''/srv/a.png''"]
  have rel: "to_path example_files ?m (Some ''a.png'') = Inr ''/srv/a.png''"
    and abs: "to_path example_files ?m (Some ''/srv/a.png'') = Inr ''/srv/a.png''"
    and rd: "read_bytes example_files ''/srv/a.png'' = Some ''xyz''"
    and mime: "to_mime example_files ''/srv/a.png'' = ''image/png''"
    and b64: "b64encode example_files ''xyz'' = ''eHl6''"
    by (simp_all add: example_files_def to_path_def)
  have 1: "snd (file_url example_files ?m (Some ''a.png'') None) = ?m"
    using frame by (rule conjunct1)
  have 2: "fst (file_url example_files ?m (Some ''a.png'') None) = Inr ''data:image/png;base64,eHl6''"
    using frame [THEN conjunct2, THEN conjunct2, THEN conjunct1, rule_format, OF conjI [OF rel rd]]
    by (simp add: mime b64)
  have 3: "fst (file_url example_files ?m (Some ''a.png'') (Some ''/srv/a.png''))
      = Inr ''data:image/png;base64,eHl6''"
    using frame [THEN conjunct2, THEN conjunct2, THEN conjunct2, THEN conjunct2, THEN conjunct1,
        rule_format, OF conjI [OF abs rd]]
    by (simp add: mime b64)
  have 4: "assests (snd (file_url example_files ?m (Some ''a.png'') (Some ''/srv/a.png'')))
      = [''old'' \<mapsto> ''v'', ''a.png'' \<mapsto> ''data:image/png;base64,eHl6'']"
    using frame [THEN conjunct2, THEN conjunct2, THEN conjunct2, THEN conjunct1, rule_format, OF 3]
    by simp
  have 5: "snd (file_url example_files ?m None (Some ''/srv/a.png'')) = ?m"
    using frame [THEN conjunct2, THEN conjunct2, THEN conjunct2, THEN conjunct2, THEN conjunct2,
        THEN conjunct1] .
  have 6: "file_url example_files ?m None None = (Inl TypeError, ?m)"
    using frame [THEN conjunct2, THEN conjunct2, THEN conjunct2, THEN conjunct2, THEN conjunct2,
        THEN conjunct2, THEN conjunct2, THEN conjunct1] .
  from 1 2 3 4 5 6 show ?thesis by (intro conjI)
qed

section \<open>Properties of \<open>anndata_preprocess\<close>\<close>

lemma bind_err_Inr: "bind_err r f = Inr y \<longleftrightarrow> (\<exists>v. r = Inr v \<and> f v = Inr y)"
  by (cases r) (simp_all add: bind_err_def)

lemma get_layer_Inr: "get_layer a k = Inr m \<longleftrightarrow> layers a k = Some m"
  by (simp add: get_layer_def split: option.splits)

lemma get_obsm_Inr: "get_obsm a k = Inr m \<longleftrightarrow> obsm a k = Some m"
  by (simp add: get_obsm_def split: option.splits)

lemma set_X_Inr: "set_X a m = Inr a' \<longleftrightarrow> shape m = (n_obs a, n_vars a) \<and> a' = a\<lparr>X := m\<rparr>"
  by (auto simp: set_X_def)

lemma set_layer_Inr:
  "set_layer a k m = Inr a' \<longleftrightarrow> shape m = (n_obs a, n_vars a) \<and> a' = a\<lparr>layers := (layers a)(k \<mapsto> m)\<rparr>"
  by (auto simp: set_layer_def)

lemma set_obsm_Inr:
  "set_obsm a k m = Inr a' \<longleftrightarrow> fst (shape m) = n_obs a \<and> a' = a\<lparr>obsm := (obsm a)(k \<mapsto> m)\<rparr>"
  by (auto simp: set_obsm_def)

lemma read_h5ad_Inr: "read_h5ad store p = Inr a \<longleftrightarrow> store p = Some a"
  by (simp add: read_h5ad_def split: option.splits)

lemma write_h5ad_Inr:
  "write_h5ad env store p a = Inr store' \<longleftrightarrow> can_write env p \<and> store' = store(p \<mapsto> a)"
  by (auto simp: write_h5ad_def)

lemma dims_del_slots [simp]: "n_obs (del_slots a) = n_obs a" "n_vars (del_slots a) = n_vars a"
  by (simp_all add: del_slots_def n_obs_def n_vars_def)

lemma dims_update [simp]:
  "n_obs (a\<lparr>X := m\<rparr>) = n_obs a" "n_vars (a\<lparr>X := m\<rparr>) = n_vars a"
  "n_obs (a\<lparr>layers := ls\<rparr>) = n_obs a" "n_vars (a\<lparr>layers := ls\<rparr>) = n_vars a"
  "n_obs (a\<lparr>obsm := om\<rparr>) = n_obs a" "n_vars (a\<lparr>obsm := om\<rparr>) = n_vars a"
  by (simp_all add: n_obs_def n_vars_def)

lemma del_slots_sel [simp]:
  "uns (del_slots a) = Map.empty" "layers (del_slots a) = Map.empty" "obsm (del_slots a) = Map.empty"
  "obsp (del_slots a) = Map.empty" "varm (del_slots a) = Map.empty"
  "X (del_slots a) = X a" "obs (del_slots a) = obs a" "var (del_slots a) = var a"
  "varp (del_slots a) = varp a" "raw (del_slots a) = raw a"
  by (simp_all add: del_slots_def)

text \<open>What a successful run has done, step by step.\<close>

lemma anndata_preprocess_Inr:
  assumes "anndata_preprocess env store path output_path X_counts X_log1p spatial_key = Inr (res, store')"
  shows "\<exists>adata c adata' l s.
           store path = Some adata
         \<and> layers adata X_counts = Some c
         \<and> log1p_matrix env adata (sparse_copy c) X_log1p = Inr (adata', l)
         \<and> obsm adata' spatial_key = Some s
         \<and> shape (sparse_copy c) = (n_obs adata', n_vars adata')
         \<and> shape l = (n_obs adata', n_vars adata')
         \<and> fst (shape s) = n_obs adata'
         \<and> can_write env output_path
         \<and> res = (del_slots adata')\<lparr>X := sparse_copy c, layers := [''X_log1p'' \<mapsto> l],
                                    obsm := [''spatial'' \<mapsto> s]\<rparr>
         \<and> store' = store(output_path \<mapsto> res)"
  using assms
  by (auto simp: anndata_preprocess_def Let_def bind_err_Inr read_h5ad_Inr get_layer_Inr
      get_obsm_Inr set_X_Inr set_layer_Inr set_obsm_Inr write_h5ad_Inr)

lemma log1p_matrix_Some:
  "log1p_matrix env adata c (Some k) = Inr (adata', l) \<longleftrightarrow>
     (\<exists>m. layers adata k = Some m \<and> adata' = adata \<and> l = sparse_copy m)"
  by (auto simp: log1p_matrix_def bind_err_Inr get_layer_Inr)

lemma log1p_matrix_None:
  "log1p_matrix env adata c None = Inr (adata', l) \<longleftrightarrow>
     shape c = (n_obs adata, n_vars adata)
   \<and> normalize env (adata\<lparr>X := c\<rparr>) = Inr adata' \<and> l = csr_matrix (X adata')"
  by (auto simp: log1p_matrix_def bind_err_Inr set_X_Inr copy_def)

lemma issparse_sparse_copy [simp]: "issparse (sparse_copy m)"
  by (simp add: sparse_copy_def csr_matrix_def copy_def)

lemma shape_sparse_copy [simp]: "shape (sparse_copy m) = shape m"
  by (simp add: sparse_copy_def csr_matrix_def copy_def)


text \<open>
  Claim C3. When the input at \<open>path\<close> has \<open>N\<close> observations and its coordinates under
  \<open>spatial_key\<close> have shape \<open>(N, 3)\<close>, the object that a successful run returns has \<open>N\<close>
  observations, \<open>obsm["spatial"]\<close> of shape \<open>(N, 3)\<close>, a sparse \<open>X\<close> and a sparse layer
  \<open>X_log1p\<close> of the same shape. (With \<open>X_log1p = None\<close> the coordinates are read after
  dynamo's normalisation, which is taken to leave \<open>obsm\<close> alone.)
\<close>

theorem anndata_preprocess_shapes:
  assumes run: "anndata_preprocess env store path output_path X_counts X_log1p spatial_key = Inr (res, store')"
    and input: "store path = Some adata"
    and coords: "obsm adata spatial_key = Some s" "shape s = (n_obs adata, 3)"
    and dyn: "X_log1p = None \<longrightarrow> (\<forall>a a'. normalize env a = Inr a' \<longrightarrow> obsm a' = obsm a)"
  shows "n_obs res = n_obs adata
       \<and> (\<exists>s'. obsm res ''spatial'' = Some s' \<and> shape s' = (n_obs adata, 3))
       \<and> issparse (X res)
       \<and> (\<exists>l. layers res ''X_log1p'' = Some l \<and> issparse l \<and> shape l = shape (X res))"
proof -
  from anndata_preprocess_Inr [OF run] input obtain c adata' l s' where
    c: "layers adata X_counts = Some c"
    and log: "log1p_matrix env adata (sparse_copy c) X_log1p = Inr (adata', l)"
    and s': "obsm adata' spatial_key = Some s'"
    and shc: "shape (sparse_copy c) = (n_obs adata', n_vars adata')"
    and shl: "shape l = (n_obs adata', n_vars adata')"
    and res: "res = (del_slots adata')\<lparr>X := sparse_copy c, layers := [''X_log1p'' \<mapsto> l],
                                    obsm := [''spatial'' \<mapsto> s']\<rparr>"
    by auto
  have same: "n_obs adata' = n_obs adata \<and> obsm adata' spatial_key = obsm adata spatial_key \<and> issparse l"
  proof (cases X_log1p)
    case None
    with log have sh: "shape (sparse_copy c) = (n_obs adata, n_vars adata)"
      and nz: "normalize env (adata\<lparr>X := sparse_copy c\<rparr>) = Inr adata'"
      and l: "l = csr_matrix (X adata')"
      by (simp_all add: log1p_matrix_None)
    from dyn None nz have "obsm adata' = obsm (adata\<lparr>X := sparse_copy c\<rparr>)" by blast
    with sh shc l show ?thesis by (simp add: csr_matrix_def)
  next
    case (Some k)
    with log show ?thesis by (auto simp: log1p_matrix_Some)
  qed
  with s' coords have "s' = s" by simp
  with same coords shc shl show ?thesis
    unfolding res by simp
qed

theorem anndata_preprocess_shapes_witness:
  "(\<exists>res store'.
      anndata_preprocess example_h5ad_env [''in.h5ad'' \<mapsto> example_adata] ''in.h5ad'' ''out.h5ad''
        ''X_counts'' (Some ''X_log1p'') ''3d_align_spatial'' = Inr (res, store')
    \<and> n_obs example_adata = 2
    \<and> n_obs res = 2
    \<and> (\<exists>s'. obsm res ''spatial'' = Some s' \<and> shape s' = (2, 3))
    \<and> issparse (X res)
    \<and> (\<exists>l. layers res ''X_log1p'' = Some l \<and> issparse l \<and> shape l = shape (X res)))
   \<and> (\<exists>res store'.
      anndata_preprocess example_h5ad_env [''in.h5ad'' \<mapsto> example_adata] ''in.h5ad'' ''out.h5ad''
        ''X_counts'' None ''3d_align_spatial'' = Inr (res, store')
    \<and> n_obs res = 2
    \<and> (\<exists>s'. obsm res ''spatial'' = Some s' \<and> shape s' = (2, 3))
    \<and> issparse (X res)
    \<and> (\<exists>l. layers res ''X_log1p'' = Some l \<and> issparse l \<and> shape l = shape (X res)))"
proof -
  note defs = anndata_preprocess_def example_adata_def example_h5ad_env_def bind_err_def
        read_h5ad_def write_h5ad_def get_layer_def get_obsm_def set_X_def set_layer_def
        set_obsm_def del_slots_def log1p_matrix_def sparse_copy_def csr_matrix_def copy_def
        n_obs_def n_vars_def Let_def
  obtain res store' where run:
    "anndata_preprocess example_h5ad_env [''in.h5ad'' \<mapsto> example_adata] ''in.h5ad'' ''out.h5ad''
        ''X_counts'' (Some ''X_log1p'') ''3d_align_spatial'' = Inr (res, store')"
    by (simp add: defs)
  obtain res2 store2 where run2:
    "anndata_preprocess example_h5ad_env [''in.h5ad'' \<mapsto> example_adata] ''in.h5ad'' ''out.h5ad''
        ''X_counts'' None ''3d_align_spatial'' = Inr (res2, store2)"
    by (simp add: defs)
  have n: "n_obs example_adata = 2" by (simp add: example_adata_def n_obs_def)
  have input: "[''in.h5ad'' \<mapsto> example_adata] ''in.h5ad'' = Some example_adata" by simp
  have coords: "obsm example_adata ''3d_align_spatial''
      = Some \<lparr>issparse = False, shape = (2, 3), entries = [[0, 0, 0], [1, 2, 3]]\<rparr>"
    by (simp add: example_adata_def)
  have sh: "shape \<lparr>issparse = False, shape = (2, 3), entries = [[0, 0, 0], [1, 2, 3]]\<rparr>
      = (n_obs example_adata, 3)"
    by (simp add: n)
  have dyn: "None = None \<longrightarrow> (\<forall>a a'. normalize example_h5ad_env a = Inr a' \<longrightarrow> obsm a' = obsm a)"
    by (auto simp: example_h5ad_env_def)
  have some: "Some ''X_log1p'' = None \<longrightarrow>
      (\<forall>a a'. normalize example_h5ad_env a = Inr a' \<longrightarrow> obsm a' = obsm a)"
    by simp
  note a = anndata_preprocess_shapes [OF run input coords sh some, unfolded n]
  note b = anndata_preprocess_shapes [OF run2 input coords sh dyn, unfolded n]
  show ?thesis
    apply (rule conjI)
     apply (rule exI [of _ res], rule exI [of _ store'])
    using run n a apply simp
    apply (rule exI [of _ res2], rule exI [of _ store2])
    using run2 b apply simp
    done
qed

text \<open>
  Claim C4 (amended). The object that a successful run writes under \<open>output_path\<close> and
  returns has empty \<open>uns\<close>, \<open>obsp\<close> and \<open>varm\<close>; its \<open>layers\<close> have exactly the key
  \<open>X_log1p\<close> and its \<open>obsm\<close> exactly the key \<open>spatial\<close>; \<open>X\<close> is the sparse counts
  layer. When a key \<open>X_log1p\<close> is given, \<open>obs\<close> and \<open>var\<close> (and \<open>varp\<close>, \<open>raw\<close>,
  which the function never touches) are those of the input, the layer is the sparse input
  layer and the coordinates are the input's. When \<open>X_log1p\<close> is \<open>None\<close>, \<open>obs\<close> and
  \<open>var\<close> are those of the object that dynamo's normalisation left.
\<close>

theorem anndata_preprocess_frame:
  assumes run: "anndata_preprocess env store path output_path X_counts X_log1p spatial_key = Inr (res, store')"
    and input: "store path = Some adata"
  shows "uns res = Map.empty \<and> obsp res = Map.empty \<and> varm res = Map.empty
       \<and> dom (layers res) = {''X_log1p''}
       \<and> dom (obsm res) = {''spatial''}
       \<and> (\<exists>c. layers adata X_counts = Some c \<and> X res = sparse_copy c
            \<and> (X_log1p = None \<longrightarrow>
                  (\<exists>a'. normalize env (adata\<lparr>X := sparse_copy c\<rparr>) = Inr a'
                     \<and> obs res = obs a' \<and> var res = var a'
                     \<and> layers res ''X_log1p'' = Some (csr_matrix (X a'))
                     \<and> obsm res ''spatial'' = obsm a' spatial_key)))
       \<and> (\<forall>k. X_log1p = Some k \<longrightarrow>
              obs res = obs adata \<and> var res = var adata
            \<and> varp res = varp adata \<and> raw res = raw adata
            \<and> layers res ''X_log1p'' = map_option sparse_copy (layers adata k)
            \<and> obsm res ''spatial'' = obsm adata spatial_key)
       \<and> store' = store(output_path \<mapsto> res)"
proof -
  from anndata_preprocess_Inr [OF run] input obtain c adata' l s' where
    c: "layers adata X_counts = Some c"
    and log: "log1p_matrix env adata (sparse_copy c) X_log1p = Inr (adata', l)"
    and s': "obsm adata' spatial_key = Some s'"
    and res: "res = (del_slots adata')\<lparr>X := sparse_copy c, layers := [''X_log1p'' \<mapsto> l],
                                    obsm := [''spatial'' \<mapsto> s']\<rparr>"
    and store': "store' = store(output_path \<mapsto> res)"
    by auto
  have cleared: "uns res = Map.empty \<and> obsp res = Map.empty \<and> varm res = Map.empty
      \<and> dom (layers res) = {''X_log1p''} \<and> dom (obsm res) = {''spatial''}"
    unfolding res by simp
  have counts: "X res = sparse_copy c"
    unfolding res by simp
  have none: "\<exists>a'. normalize env (adata\<lparr>X := sparse_copy c\<rparr>) = Inr a'
                     \<and> obs res = obs a' \<and> var res = var a'
                     \<and> layers res ''X_log1p'' = Some (csr_matrix (X a'))
                     \<and> obsm res ''spatial'' = obsm a' spatial_key"
    if "X_log1p = None"
    using log that s' unfolding res by (simp add: log1p_matrix_None)
  have some: "obs res = obs adata \<and> var res = var adata
            \<and> varp res = varp adata \<and> raw res = raw adata
            \<and> layers res ''X_log1p'' = map_option sparse_copy (layers adata k)
            \<and> obsm res ''spatial'' = obsm adata spatial_key"
    if "X_log1p = Some k" for k
    using log that s' unfolding res by (auto simp: log1p_matrix_Some)
  show ?thesis
    apply (intro conjI)
    using cleared apply simp
    using cleared apply simp
    using cleared apply simp
    using cleared apply simp
    using cleared apply simp
    using c counts none apply blast
    using some apply blast
    using store' apply simp
    done
qed

theorem anndata_preprocess_frame_witness:
  "\<exists>res store'.
      anndata_preprocess example_h5ad_env [''in.h5ad'' \<mapsto> example_adata] ''in.h5ad'' ''out.h5ad''
        ''X_counts'' (Some ''X_log1p'') ''3d_align_spatial'' = Inr (res, store')
    \<and> uns res = Map.empty \<and> obsp res = Map.empty \<and> varm res = Map.empty
    \<and> dom (layers res) = {''X_log1p''} \<and> dom (obsm res) = {''spatial''}
    \<and> obs res = obs example_adata \<and> var res = var example_adata
    \<and> store' ''out.h5ad'' = Some res"
proof -
  obtain res store' where run:
    "anndata_preprocess example_h5ad_env [''in.h5ad'' \<mapsto> example_adata] ''in.h5ad'' ''out.h5ad''
        ''X_counts'' (Some ''X_log1p'') ''3d_align_spatial'' = Inr (res, store')"
    by (simp add: anndata_preprocess_def example_adata_def example_h5ad_env_def bind_err_def
        read_h5ad_def write_h5ad_def get_layer_def get_obsm_def set_X_def set_layer_def
        set_obsm_def del_slots_def log1p_matrix_def sparse_copy_def csr_matrix_def copy_def
        n_obs_def n_vars_def Let_def)
  have input: "[''in.h5ad'' \<mapsto> example_adata] ''in.h5ad'' = Some example_adata" by simp
  note frame = anndata_preprocess_frame [OF run input]
  note c1 = frame [THEN conjunct1]
  note r1 = frame [THEN conjunct2]
  note c2 = r1 [THEN conjunct1]
  note r2 = r1 [THEN conjunct2]
  note c3 = r2 [THEN conjunct1]
  note r3 = r2 [THEN conjunct2]
  note c4 = r3 [THEN conjunct1]
  note r4 = r3 [THEN conjunct2]
  note c5 = r4 [THEN conjunct1]
  note r5 = r4 [THEN conjunct2]
  note r6 = r5 [THEN conjunct2]
  note c7 = r6 [THEN conjunct1, rule_format, OF refl]
  note c8 = r6 [THEN conjunct2]
  have 5: "store' ''out.h5ad'' = Some res" unfolding c8 by simp
  show ?thesis
    apply (rule exI [of _ res])
    apply (rule exI [of _ store'])
    apply (intro conjI)
            apply (rule run c1 c2 c3 c4 c5 5 c7 [THEN conjunct1] c7 [THEN conjunct2, THEN conjunct1])+
    done
qed

text \<open>
  Claim C4 as stated (\<open>obs\<close> unchanged for every input) fails when \<open>X_log1p\<close> is \<open>None\<close>:
  the function hands the object to dynamo's normalisation, which records the size factors
  in \<open>obs\<close>, and the column is still there in the object that is returned.
\<close>

theorem anndata_preprocess_obs_changed:
  "\<not> isl (anndata_preprocess example_h5ad_env [''in.h5ad'' \<mapsto> example_adata] ''in.h5ad'' ''out.h5ad''
            ''X_counts'' None ''3d_align_spatial'')
   \<and> columns (obs (fst (projr (anndata_preprocess example_h5ad_env [''in.h5ad'' \<mapsto> example_adata]
            ''in.h5ad'' ''out.h5ad'' ''X_counts'' None ''3d_align_spatial''))))
       = [(''anno'', [''a'', ''b'']), (''Size_Factor'', [''1.5'', ''0.5''])]
   \<and> columns (obs example_adata) = [(''anno'', [''a'', ''b''])]
   \<and> obs (fst (projr (anndata_preprocess example_h5ad_env [''in.h5ad'' \<mapsto> example_adata]
            ''in.h5ad'' ''out.h5ad'' ''X_counts'' None ''3d_align_spatial''))) \<noteq> obs example_adata"
  by (simp add: anndata_preprocess_def example_adata_def example_h5ad_env_def bind_err_def
        read_h5ad_def write_h5ad_def get_layer_def get_obsm_def set_X_def set_layer_def
        set_obsm_def del_slots_def log1p_matrix_def sparse_copy_def csr_matrix_def copy_def
        n_obs_def n_vars_def Let_def)

section \<open>Properties of \<open>morphogenesis\<close>\<close>

subsection \<open>The time vector\<close>

lemma zero_in_flats_of: "0 \<in> set (flats_of t_items)"
  by (simp add: flats_of_def Let_def set_insort_key)

lemma py_max_Max: "xs \<noteq> [] \<longrightarrow> py_max xs = Inr (Max (set xs))"
proof (cases xs)
  case Nil
  then show ?thesis by simp
next
  case (Cons a list)
  show ?thesis unfolding Cons py_max_def by (simp only: list.case Max.set_eq_fold) simp
qed

lemma py_max_flats_of:
  "py_max (flats_of t_items) = Inr (Max (set (flats_of t_items))) \<and> 0 \<le> Max (set (flats_of t_items))"
proof -
  have ne: "flats_of t_items \<noteq> []" using zero_in_flats_of[of t_items] by auto
  have "0 \<le> Max (set (flats_of t_items))"
    using zero_in_flats_of[of t_items] by (intro Max_ge) simp_all
  with py_max_Max[of "flats_of t_items"] ne show ?thesis by simp
qed

lemma flats_of_le_3000: "x \<in> set (flats_of t_items) \<Longrightarrow> x \<le> 3000"
  by (auto simp: flats_of_def Let_def set_insort_key)

lemma time_vector_eq:
  "time_vector t_items = Inr (map (ideal_time (Max (set (flats_of t_items)))) [0..<100])"
  using py_max_flats_of[of t_items]
  by (simp add: time_vector_def bind_err_def logspace_def linspace_def ideal_time_def o_def)

lemma ideal_time_mono: "0 \<le> m \<Longrightarrow> i \<le> j \<Longrightarrow> ideal_time m i \<le> ideal_time m j"
proof -
  assume m: "0 \<le> m" and ij: "i \<le> j"
  have "0 \<le> log 10 (real_of_int (m + 1))" using m by simp
  then have "real i * (log 10 (real_of_int (m + 1)) / 99) \<le> real j * (log 10 (real_of_int (m + 1)) / 99)"
    using ij by (intro mult_right_mono) simp_all
  then show ?thesis by (simp add: ideal_time_def)
qed

lemma ideal_time_strict: "0 < m \<Longrightarrow> i < j \<Longrightarrow> ideal_time m i < ideal_time m j"
proof -
  assume m: "0 < m" and ij: "i < j"
  have "0 < log 10 (real_of_int (m + 1))" using m by simp
  then have "real i * (log 10 (real_of_int (m + 1)) / 99) < real j * (log 10 (real_of_int (m + 1)) / 99)"
    using ij by (intro mult_strict_right_mono) simp_all
  then show ?thesis by (simp add: ideal_time_def)
qed

lemma ideal_time_0: "ideal_time m 0 = 0"
  by (simp add: ideal_time_def)

lemma ideal_time_99: "0 \<le> m \<Longrightarrow> ideal_time m 99 = real_of_int m"
  by (simp add: ideal_time_def powr_log_cancel)

lemma ideal_time_flat: "ideal_time 0 i = 0"
  by (simp add: ideal_time_def)


text \<open>
  Claim C6. Whatever the trajectory times are, the time vector is computed without error,
  has 100 entries and is monotonically increasing: it never decreases, it runs from \<open>0\<close>
  to the largest retained time \<open>m\<close>, and it increases strictly as soon as \<open>m \<ge> 1\<close>
  (for \<open>m = 0\<close> all entries are \<open>0\<close>).
\<close>

theorem time_vector_increasing:
  "\<exists>m time_vec.
      py_max (flats_of t_items) = Inr m \<and> 0 \<le> m \<and> m \<le> 3000
    \<and> time_vector t_items = Inr time_vec
    \<and> length time_vec = 100
    \<and> sorted time_vec
    \<and> time_vec ! 0 = 0 \<and> time_vec ! 99 = real_of_int m
    \<and> (0 < m \<longrightarrow> sorted_wrt (<) time_vec)
    \<and> (m = 0 \<longrightarrow> time_vec = replicate 100 0)"
proof -
  let ?m = "Max (set (flats_of t_items))"
  let ?tv = "map (ideal_time ?m) [0..<100]"
  note mx = py_max_flats_of [of t_items]
  have m0: "0 \<le> ?m" using mx by simp
  have "?m \<in> set (flats_of t_items)"
    using zero_in_flats_of [of t_items] by (intro Max_in) auto
  then have m3000: "?m \<le> 3000" by (rule flats_of_le_3000)
  have srt: "sorted ?tv"
    unfolding sorted_iff_nth_mono using m0 by (simp add: ideal_time_mono)
  have strict: "sorted_wrt (<) ?tv" if "0 < ?m"
    unfolding sorted_wrt_iff_nth_less using that by (simp add: ideal_time_strict)
  have flat: "?tv = replicate 100 0" if "?m = 0"
    by (rule nth_equalityI) (simp_all add: that ideal_time_flat)
  have first: "?tv ! 0 = 0" by (simp add: ideal_time_0)
  have last: "?tv ! 99 = real_of_int ?m" using m0 by (simp add: ideal_time_99)
  have len: "length ?tv = 100" by simp
  show ?thesis
    apply (rule exI [of _ ?m])
    apply (rule exI [of _ ?tv])
    apply (intro conjI impI)
             apply (rule mx [THEN conjunct1] m0 m3000 time_vector_eq len srt first last)+
     apply (erule strict)
    apply (erule flat)
    done
qed

theorem time_vector_increasing_witness:
  "\<exists>time_vec.
      py_max (flats_of [(1, [0, 204.1, 408.2, 5000]), (0, [0, 3.9, - 2.5, 7])]) = Inr 408
    \<and> time_vector [(1, [0, 204.1, 408.2, 5000]), (0, [0, 3.9, - 2.5, 7])] = Inr time_vec
    \<and> length time_vec = 100 \<and> sorted_wrt (<) time_vec \<and> time_vec ! 99 = 408"
proof -
  have mx: "py_max (flats_of [(1, [0, 204.1, 408.2, 5000]), (0, [0, 3.9, - 2.5, 7])]) = Inr 408"
    by (simp add: flats_of_def py_max_def np_unique_def py_int_def)
  from time_vector_increasing [of "[(1, [0, 204.1, 408.2, 5000]), (0, [0, 3.9, - 2.5, 7])]"]
  obtain m time_vec where
    "py_max (flats_of [(1, [0, 204.1, 408.2, 5000]), (0, [0, 3.9, - 2.5, 7])]) = Inr m"
    "time_vector [(1, [0, 204.1, 408.2, 5000]), (0, [0, 3.9, - 2.5, 7])] = Inr time_vec"
    "length time_vec = 100" "time_vec ! 99 = real_of_int m" "0 < m \<longrightarrow> sorted_wrt (<) time_vec"
    by blast
  with mx show ?thesis by auto
qed

subsection \<open>The stages\<close>













subsection \<open>Errors\<close>

lemma bind_err_Inl: "bind_err r f = Inl e \<longleftrightarrow> r = Inl e \<or> (\<exists>v. r = Inr v \<and> f v = Inl e)"
  by (cases r) (simp_all add: bind_err_def)

lemma copy_obs_all_Inl: "copy_obs_all lib a m xs = Inl e \<Longrightarrow> e \<in> library_errors lib"
  by (induction xs arbitrary: m) (auto simp: bind_err_Inl intro: library_errors.copy_obs)

lemma map_err_Inl: "map_err f xs = Inl e \<Longrightarrow> \<exists>x. f x = Inl e"
  by (induction xs) (auto simp: bind_err_Inl)

lemma stages_loop_Inl:
  "stages_loop displace time_vec is pts stages_X = Inl e \<Longrightarrow> \<exists>x dt. displace x dt = Inl e"
proof (induction "is" arbitrary: pts stages_X)
  case Nil
  then show ?case by simp
next
  case (Cons i "is")
  from Cons.prems consider
    "map_err (\<lambda>cur_pts. displace cur_pts (time_vec ! i)) pts = Inl e"
    | pts' where "stages_loop displace time_vec is pts' (stages_X @ [Positions pts']) = Inl e"
    by (auto simp: bind_err_Inl)
  then show ?case
  proof cases
    case 1
    from map_err_Inl [OF 1] show ?thesis by blast
  next
    case 2
    from Cons.IH [OF 2] show ?thesis .
  qed
qed

lemma time_vector_not_Inl: "time_vector t_items \<noteq> Inl e"
  by (simp add: time_vector_eq)

lemma animation_stages_Inl: "animation_stages lib a = Inl e \<Longrightarrow> e \<in> library_errors lib"
proof -
  assume "animation_stages lib a = Inl e"
  then consider "fate_t lib a = Inl e" | "from_adata lib a = Inl e" | "init_states lib a = Inl e"
    | vf tv pts where "stages_loop (odeint lib vf) tv [0..<100] pts [Index (obs_index lib a)] = Inl e"
    unfolding animation_stages_def bind_err_Inl using time_vector_not_Inl by blast
  then show ?thesis
  proof cases
    case 4
    from stages_loop_Inl [OF 4] show ?thesis by (blast intro: library_errors.odeint)
  qed (blast intro: library_errors.intros)+
qed


lemma bind_err_library:
  "bind_err r f = Inl e \<Longrightarrow> (r = Inl e \<Longrightarrow> e \<in> E) \<Longrightarrow> (\<And>v. f v = Inl e \<Longrightarrow> e \<in> E) \<Longrightarrow> e \<in> E"
  by (auto simp: bind_err_Inl)

lemma analysis_Inl:
  "analysis lib source_adata target_adata source_pc_model mapping_factor morphofield_factor
     morphopath_t_end morphopath_sampling = Inl e \<Longrightarrow> e \<in> library_errors lib"
  unfolding analysis_def
  apply (erule bind_err_library, erule library_errors.intros)+
  apply (simp only: split_def)
  apply (erule bind_err_library, erule library_errors.intros)+
  apply (erule bind_err_library, erule copy_obs_all_Inl)+
  apply simp
  done

lemma map_err_Cons_Inr:
  "map_err f (x # xs) = Inr zs \<longleftrightarrow> (\<exists>y ys. f x = Inr y \<and> map_err f xs = Inr ys \<and> zs = y # ys)"
  by (auto simp: bind_err_Inr)

lemma map_err_first_failure:
  "map_err f xs = Inl e \<longleftrightarrow>
     (\<exists>i<length xs. (\<exists>ys. map_err f (take i xs) = Inr ys) \<and> f (xs ! i) = Inl e)"
proof (induction xs)
  case Nil
  show ?case by simp
next
  case (Cons x xs)
  show ?case
  proof (cases "f x")
    case (Inl e')
    have "(\<exists>i<length (x # xs). (\<exists>ys. map_err f (take i (x # xs)) = Inr ys) \<and> f ((x # xs) ! i) = Inl e)
        \<longleftrightarrow> e' = e"
    proof
      assume "\<exists>i<length (x # xs). (\<exists>ys. map_err f (take i (x # xs)) = Inr ys) \<and> f ((x # xs) ! i) = Inl e"
      then obtain i where i: "(\<exists>ys. map_err f (take i (x # xs)) = Inr ys)" "f ((x # xs) ! i) = Inl e"
        by blast
      show "e' = e"
      proof (cases i)
        case 0
        with i Inl show ?thesis by simp
      next
        case (Suc j)
        with i(1) Inl show ?thesis by (simp add: bind_err_def)
      qed
    next
      assume "e' = e"
      with Inl have "(\<exists>ys. map_err f (take 0 (x # xs)) = Inr ys) \<and> f ((x # xs) ! 0) = Inl e" by simp
      then show "\<exists>i<length (x # xs). (\<exists>ys. map_err f (take i (x # xs)) = Inr ys) \<and> f ((x # xs) ! i) = Inl e"
        by (intro exI [of _ 0]) simp
    qed
    with Inl show ?thesis by (simp add: bind_err_def)
  next
    case (Inr y)
    have "(\<exists>i<length (x # xs). (\<exists>ys. map_err f (take i (x # xs)) = Inr ys) \<and> f ((x # xs) ! i) = Inl e)
        \<longleftrightarrow> (\<exists>j<length xs. (\<exists>ys. map_err f (take j xs) = Inr ys) \<and> f (xs ! j) = Inl e)"
    proof
      assume "\<exists>i<length (x # xs). (\<exists>ys. map_err f (take i (x # xs)) = Inr ys) \<and> f ((x # xs) ! i) = Inl e"
      then obtain i where i: "i < length (x # xs)" "(\<exists>ys. map_err f (take i (x # xs)) = Inr ys)"
        "f ((x # xs) ! i) = Inl e" by blast
      show "\<exists>j<length xs. (\<exists>ys. map_err f (take j xs) = Inr ys) \<and> f (xs ! j) = Inl e"
      proof (cases i)
        case 0
        with i Inr show ?thesis by simp
      next
        case (Suc j)
        with i Inr have "j < length xs" "\<exists>ys. map_err f (take j xs) = Inr ys" "f (xs ! j) = Inl e"
          by (auto simp: bind_err_Inr)
        then show ?thesis by blast
      qed
    next
      assume "\<exists>j<length xs. (\<exists>ys. map_err f (take j xs) = Inr ys) \<and> f (xs ! j) = Inl e"
      then obtain j ys where j: "j < length xs" "map_err f (take j xs) = Inr ys" "f (xs ! j) = Inl e"
        by blast
      with Inr have "Suc j < length (x # xs)"
        "map_err f (take (Suc j) (x # xs)) = Inr (y # ys)" "f ((x # xs) ! Suc j) = Inl e"
        by (simp_all add: bind_err_def)
      then show "\<exists>i<length (x # xs). (\<exists>ys. map_err f (take i (x # xs)) = Inr ys) \<and> f ((x # xs) ! i) = Inl e"
        by blast
    qed
    with Inr Cons.IH show ?thesis by (simp add: bind_err_Inl)
  qed
qed

lemma copy_obs_all_first_failure:
  "copy_obs_all lib a m xs = Inl e \<longleftrightarrow>
     (\<exists>i<length xs. \<exists>m'. copy_obs_all lib a m (take i xs) = Inr m'
        \<and> copy_obs lib a m' (fst (xs ! i)) (snd (xs ! i)) = Inl e)"
proof (induction xs arbitrary: m)
  case Nil
  show ?case by simp
next
  case (Cons x xs)
  obtain src dst where x: "x = (src, dst)" by (cases x)
  show ?case
  proof (cases "copy_obs lib a m src dst")
    case (Inl e')
    then show ?thesis unfolding x by (auto simp: Ex_less_Suc2 bind_err_def)
  next
    case (Inr m1)
    then show ?thesis unfolding x using Cons.IH [of m1] by (simp add: Ex_less_Suc2 bind_err_def)
  qed
qed

lemma stages_loop_acc:
  "stages_loop displace time_vec is pts stages_X =
     map_sum id (\<lambda>new. stages_X @ new) (stages_loop displace time_vec is pts [])"
proof (induction "is" arbitrary: pts stages_X)
  case Nil
  show ?case by simp
next
  case (Cons i "is")
  show ?case
  proof (cases "map_err (\<lambda>cur_pts. displace cur_pts (time_vec ! i)) pts")
    case (Inl e)
    then show ?thesis by (simp add: bind_err_def)
  next
    case (Inr pts')
    have "stages_loop displace time_vec is pts' (stages_X @ [Positions pts']) =
        map_sum id (\<lambda>new. stages_X @ new) (stages_loop displace time_vec is pts' [Positions pts'])"
      unfolding Cons.IH [of pts' "stages_X @ [Positions pts']"] Cons.IH [of pts' "[Positions pts']"]
      by (cases "stages_loop displace time_vec is pts' []") simp_all
    with Inr show ?thesis by (simp add: bind_err_def id_def)
  qed
qed

lemma stages_loop_first_failure:
  "stages_loop displace time_vec is pts stages_X = Inl e \<longleftrightarrow>
     (\<exists>k<length is. \<exists>new pts'.
        stages_loop displace time_vec (take k is) pts [] = Inr new
      \<and> last (Positions pts # new) = Positions pts'
      \<and> map_err (\<lambda>cur_pts. displace cur_pts (time_vec ! (is ! k))) pts' = Inl e)"
proof (induction "is" arbitrary: pts stages_X)
  case Nil
  show ?case by simp
next
  case (Cons i "is")
  show ?case
  proof (cases "map_err (\<lambda>cur_pts. displace cur_pts (time_vec ! i)) pts")
    case (Inl e')
    then show ?thesis by (auto simp: Ex_less_Suc2 bind_err_def)
  next
    case (Inr p1)
    have prefix: "stages_loop displace time_vec (take k is) p1 [Positions p1] = Inr r \<longleftrightarrow>
        (\<exists>new. stages_loop displace time_vec (take k is) p1 [] = Inr new \<and> r = Positions p1 # new)"
      for k r
      unfolding stages_loop_acc [of displace time_vec "take k is" p1 "[Positions p1]"]
      by (cases "stages_loop displace time_vec (take k is) p1 []") auto
    have "stages_loop displace time_vec (i # is) pts stages_X = Inl e \<longleftrightarrow>
        stages_loop displace time_vec is p1 (stages_X @ [Positions p1]) = Inl e"
      using Inr by (simp add: bind_err_def)
    also have "\<dots> \<longleftrightarrow> (\<exists>k<length is. \<exists>new pts'.
        stages_loop displace time_vec (take k is) p1 [] = Inr new
      \<and> last (Positions p1 # new) = Positions pts'
      \<and> map_err (\<lambda>cur_pts. displace cur_pts (time_vec ! (is ! k))) pts' = Inl e)"
      by (rule Cons.IH)
    also have "\<dots> \<longleftrightarrow> (\<exists>k<length (i # is). \<exists>new pts'.
        stages_loop displace time_vec (take k (i # is)) pts [] = Inr new
      \<and> last (Positions pts # new) = Positions pts'
      \<and> map_err (\<lambda>cur_pts. displace cur_pts (time_vec ! ((i # is) ! k))) pts' = Inl e)"
      (is "?L \<longleftrightarrow> ?R")
    proof
      assume ?L
      then obtain k new pts' where k: "k < length is"
        and new: "stages_loop displace time_vec (take k is) p1 [] = Inr new"
        and lst: "last (Positions p1 # new) = Positions pts'"
        and err: "map_err (\<lambda>cur_pts. displace cur_pts (time_vec ! (is ! k))) pts' = Inl e"
        by blast
      from new have "stages_loop displace time_vec (take (Suc k) (i # is)) pts [] = Inr (Positions p1 # new)"
        using Inr by (simp add: bind_err_def prefix)
      moreover from lst have "last (Positions pts # Positions p1 # new) = Positions pts'" by simp
      moreover from err have
        "map_err (\<lambda>cur_pts. displace cur_pts (time_vec ! ((i # is) ! Suc k))) pts' = Inl e" by simp
      moreover from k have "Suc k < length (i # is)" by simp
      ultimately show ?R by blast
    next
      assume ?R
      then obtain k new pts' where k: "k < length (i # is)"
        and new: "stages_loop displace time_vec (take k (i # is)) pts [] = Inr new"
        and lst: "last (Positions pts # new) = Positions pts'"
        and err: "map_err (\<lambda>cur_pts. displace cur_pts (time_vec ! ((i # is) ! k))) pts' = Inl e"
        by blast
      show ?L
      proof (cases k)
        case 0
        with new lst have "pts' = pts" by simp
        with err 0 Inr show ?thesis by simp
      next
        case (Suc j)
        from new obtain new0 where new0: "stages_loop displace time_vec (take j is) p1 [] = Inr new0"
          and eq: "new = Positions p1 # new0"
          unfolding Suc using Inr by (auto simp: bind_err_def prefix)
        from lst have "last (Positions p1 # new0) = Positions pts'" unfolding eq by simp
        moreover from err have "map_err (\<lambda>cur_pts. displace cur_pts (time_vec ! (is ! j))) pts' = Inl e"
          unfolding Suc by simp
        moreover from k have "j < length is" unfolding Suc by simp
        ultimately show ?thesis using new0 by blast
      qed
    qed
    finally show ?thesis .
  qed
qed

lemma morphogenesis_Inl:
  assumes "import_spateo lib = Inr ()"
  shows "morphogenesis lib source_adata target_adata source_pc_model mapping_factor
       morphofield_factor morphopath_t_end morphopath_sampling = Inl e \<longleftrightarrow>
     analysis lib source_adata target_adata source_pc_model mapping_factor
       morphofield_factor morphopath_t_end morphopath_sampling = Inl e
   \<or> (\<exists>a pc v t. analysis lib source_adata target_adata source_pc_model mapping_factor
           morphofield_factor morphopath_t_end morphopath_sampling = Inr (a, pc, v, t)
         \<and> animation_stages lib a = Inl e)"
proof (cases "analysis lib source_adata target_adata source_pc_model mapping_factor
          morphofield_factor morphopath_t_end morphopath_sampling")
  case (Inl e')
  with assms show ?thesis by (simp add: morphogenesis_def bind_err_def)
next
  case (Inr r)
  obtain a pc v t where r: "r = (a, pc, v, t)" by (cases r) auto
  show ?thesis
    unfolding morphogenesis_def Inr r assms
    by (cases "animation_stages lib a") (auto simp: bind_err_def)
qed

text \<open>
  Claim C5 (amended). \<open>morphogenesis\<close> raises the \<open>ImportError\<close> with the installation
  message whenever \<open>import spateo\<close> raises \<open>ImportError\<close> and, provided no library call
  raises that very exception, only then; any other exception of the import leaves the
  function unchanged. After a successful import the function handles nothing: the calls
  run in the order of the source, the exception of the first call that raises is the
  exception of the function (also inside the loops over the copied columns, the stages and
  the cells), nothing is retried, and the function returns only when every call has
  returned. The repository has one other handler, the import of \<open>Literal\<close> in
  pv\_actors.py, which falls back to \<open>typing_extensions\<close> and fails only when both imports
  fail.
\<close>

theorem morphogenesis_errors:
  fixes lib :: "('ad, 'pd, 'vf) libraries"
  shows
  "let run = morphogenesis lib source_adata target_adata source_pc_model mapping_factor
               morphofield_factor morphopath_t_end morphopath_sampling
   in
     (\<forall>msg. import_spateo lib = Inl (ImportError msg) \<longrightarrow> run = Inl (ImportError install_message))
   \<and> (\<forall>e. import_spateo lib = Inl e \<and> (\<forall>msg. e \<noteq> ImportError msg) \<longrightarrow> run = Inl e)
   \<and> (ImportError install_message \<notin> library_errors lib \<longrightarrow>
        (run = Inl (ImportError install_message)
         \<longleftrightarrow> (\<exists>msg. import_spateo lib = Inl (ImportError msg))))
   \<and> (import_spateo lib = Inr () \<longrightarrow> (\<forall>e. run = Inl e \<longrightarrow> e \<in> library_errors lib))
   \<and> (import_spateo lib = Inr () \<longrightarrow>
      (\<forall>e. obs_subset lib source_adata source_pc_model = Inl e \<longrightarrow> run = Inl e)
      \<and> (\<forall>a0. obs_subset lib source_adata source_pc_model = Inr a0 \<longrightarrow>
      (\<forall>e. cell_directions lib a0 target_adata mapping_factor = Inl e \<longrightarrow> run = Inl e)
      \<and> (\<forall>a1. cell_directions lib a0 target_adata mapping_factor = Inr a1 \<longrightarrow>
      (\<forall>e. morphofield lib a1 = Inl e \<longrightarrow> run = Inl e)
      \<and> (\<forall>a2. morphofield lib a1 = Inr a2 \<longrightarrow>
      (\<forall>e. store_vectors lib a2 source_pc_model = Inl e \<longrightarrow> run = Inl e)
      \<and> (\<forall>a3 pc1. store_vectors lib a2 source_pc_model = Inr (a3, pc1) \<longrightarrow>
      (\<forall>e. construct_field lib pc1 morphofield_factor = Inl e \<longrightarrow> run = Inl e)
      \<and> (\<forall>pc_vectors. construct_field lib pc1 morphofield_factor = Inr pc_vectors \<longrightarrow>
      (\<forall>e. morphopath lib a3 morphopath_t_end = Inl e \<longrightarrow> run = Inl e)
      \<and> (\<forall>a4. morphopath lib a3 morphopath_t_end = Inr a4 \<longrightarrow>
      (\<forall>e. construct_trajectory lib a4 morphopath_sampling = Inl e \<longrightarrow> run = Inl e)
      \<and> (\<forall>trajectory_model. construct_trajectory lib a4 morphopath_sampling = Inr trajectory_model \<longrightarrow>
      (\<forall>e. morphofield_acceleration lib a4 = Inl e \<longrightarrow> run = Inl e)
      \<and> (\<forall>a5. morphofield_acceleration lib a4 = Inr a5 \<longrightarrow>
      (\<forall>e. morphofield_curvature lib a5 = Inl e \<longrightarrow> run = Inl e)
      \<and> (\<forall>a6. morphofield_curvature lib a5 = Inr a6 \<longrightarrow>
      (\<forall>e. morphofield_curl lib a6 = Inl e \<longrightarrow> run = Inl e)
      \<and> (\<forall>a7. morphofield_curl lib a6 = Inr a7 \<longrightarrow>
      (\<forall>e. morphofield_torsion lib a7 = Inl e \<longrightarrow> run = Inl e)
      \<and> (\<forall>a8. morphofield_torsion lib a7 = Inr a8 \<longrightarrow>
      (\<forall>e. copy_obs_all lib a8 pc1
           [(''acceleration'', ''acceleration''), (''curvature'', ''curvature''),
            (''curl'', ''curl''), (''torsion'', ''torsion'')] = Inl e \<longrightarrow> run = Inl e)
      \<and> (\<forall>pc2. copy_obs_all lib a8 pc1
           [(''acceleration'', ''acceleration''), (''curvature'', ''curvature''),
            (''curl'', ''curl''), (''torsion'', ''torsion'')] = Inr pc2 \<longrightarrow>
      (\<forall>e. copy_obs_all lib a8 pc_vectors
           [(''V_z'', ''V_Z''), (''acceleration'', ''acceleration''), (''curvature'', ''curvature''),
            (''curl'', ''curl''), (''torsion'', ''torsion'')] = Inl e \<longrightarrow> run = Inl e)
      \<and> (\<forall>pc_vectors'. copy_obs_all lib a8 pc_vectors
           [(''V_z'', ''V_Z''), (''acceleration'', ''acceleration''), (''curvature'', ''curvature''),
            (''curl'', ''curl''), (''torsion'', ''torsion'')] = Inr pc_vectors' \<longrightarrow>
      (\<forall>e. copy_obs_all lib a8 trajectory_model
           [(''V_z'', ''V_Z''), (''acceleration'', ''acceleration''), (''curvature'', ''curvature''),
            (''curl'', ''curl''), (''torsion'', ''torsion'')] = Inl e \<longrightarrow> run = Inl e)
      \<and> (\<forall>trajectory_model'. copy_obs_all lib a8 trajectory_model
           [(''V_z'', ''V_Z''), (''acceleration'', ''acceleration''), (''curvature'', ''curvature''),
            (''curl'', ''curl''), (''torsion'', ''torsion'')] = Inr trajectory_model' \<longrightarrow>
      (\<forall>e. fate_t lib a8 = Inl e \<longrightarrow> run = Inl e)
      \<and> (\<forall>t_items time_vec. fate_t lib a8 = Inr t_items \<and> time_vector t_items = Inr time_vec \<longrightarrow>
      (\<forall>e. from_adata lib a8 = Inl e \<longrightarrow> run = Inl e)
      \<and> (\<forall>vf. from_adata lib a8 = Inr vf \<longrightarrow>
      (\<forall>e. init_states lib a8 = Inl e \<longrightarrow> run = Inl e)
      \<and> (\<forall>pts. init_states lib a8 = Inr pts \<longrightarrow>
      (\<forall>e. stages_loop (odeint lib vf) time_vec [0..<100] pts [Index (obs_index lib a8)] = Inl e \<longrightarrow> run = Inl e)
      \<and> (\<forall>stages_X. stages_loop (odeint lib vf) time_vec [0..<100] pts [Index (obs_index lib a8)] = Inr stages_X \<longrightarrow>
            run = Inr (pc2, pc_vectors', trajectory_model', stages_X))))))))))))))))))))
   \<and> (\<forall>a m xs e. copy_obs_all lib a m xs = Inl e \<longleftrightarrow>
        (\<exists>i<length xs. \<exists>m'. copy_obs_all lib a m (take i xs) = Inr m'
           \<and> copy_obs lib a m' (fst (xs ! i)) (snd (xs ! i)) = Inl e))
   \<and> (\<forall>displace time_vec is pts stages_X e.
        stages_loop displace time_vec is pts stages_X = Inl e \<longleftrightarrow>
        (\<exists>k<length is. \<exists>new pts'.
            stages_loop displace time_vec (take k is) pts [] = Inr new
          \<and> last (Positions pts # new) = Positions pts'
          \<and> map_err (\<lambda>cur_pts. displace cur_pts (time_vec ! (is ! k))) pts' = Inl e))
   \<and> (\<forall>(f :: real list \<Rightarrow> error + real list) xs e.
        map_err f xs = Inl e \<longleftrightarrow>
        (\<exists>i<length xs. (\<exists>ys. map_err f (take i xs) = Inr ys) \<and> f (xs ! i) = Inl e))
   \<and> ((\<exists>e. import_Literal available = Inl e) \<longleftrightarrow>
        \<not> available ''typing'' ''Literal'' \<and> \<not> available ''typing_extensions'' ''Literal'')"
proof -
  let ?run = "morphogenesis lib source_adata target_adata source_pc_model mapping_factor
               morphofield_factor morphopath_t_end morphopath_sampling"
  have caught: "\<forall>msg. import_spateo lib = Inl (ImportError msg) \<longrightarrow> ?run = Inl (ImportError install_message)"
    by (simp add: morphogenesis_def)
  have other: "\<forall>e. import_spateo lib = Inl e \<and> (\<forall>msg. e \<noteq> ImportError msg) \<longrightarrow> ?run = Inl e"
  proof (intro allI impI)
    fix e assume "import_spateo lib = Inl e \<and> (\<forall>msg. e \<noteq> ImportError msg)"
    then show "?run = Inl e" by (cases e) (simp_all add: morphogenesis_def)
  qed
  have lib: "import_spateo lib = Inr () \<longrightarrow> (\<forall>e. ?run = Inl e \<longrightarrow> e \<in> library_errors lib)"
  proof (intro allI impI)
    fix e assume imp: "import_spateo lib = Inr ()" and "?run = Inl e"
    then show "e \<in> library_errors lib"
      unfolding morphogenesis_Inl [OF imp] by (auto dest: analysis_Inl animation_stages_Inl)
  qed
  have iff: "ImportError install_message \<notin> library_errors lib \<longrightarrow>
        (?run = Inl (ImportError install_message)
         \<longleftrightarrow> (\<exists>msg. import_spateo lib = Inl (ImportError msg)))"
  proof (intro impI iffI)
    assume "\<exists>msg. import_spateo lib = Inl (ImportError msg)"
    with caught show "?run = Inl (ImportError install_message)" by blast
  next
    assume clean: "ImportError install_message \<notin> library_errors lib"
      and run: "?run = Inl (ImportError install_message)"
    show "\<exists>msg. import_spateo lib = Inl (ImportError msg)"
    proof (cases "import_spateo lib")
      case (Inl e)
      show ?thesis
      proof (cases "\<exists>msg. e = ImportError msg")
        case True
        with Inl show ?thesis by blast
      next
        case False
        with other Inl have "?run = Inl e" by blast
        with run False show ?thesis by simp
      qed
    next
      case (Inr u)
      with lib run have "ImportError install_message \<in> library_errors lib" by simp
      with clean show ?thesis by simp
    qed
  qed
  have chain: "import_spateo lib = Inr () \<longrightarrow>
      (\<forall>e. obs_subset lib source_adata source_pc_model = Inl e \<longrightarrow> ?run = Inl e)
      \<and> (\<forall>a0. obs_subset lib source_adata source_pc_model = Inr a0 \<longrightarrow>
      (\<forall>e. cell_directions lib a0 target_adata mapping_factor = Inl e \<longrightarrow> ?run = Inl e)
      \<and> (\<forall>a1. cell_directions lib a0 target_adata mapping_factor = Inr a1 \<longrightarrow>
      (\<forall>e. morphofield lib a1 = Inl e \<longrightarrow> ?run = Inl e)
      \<and> (\<forall>a2. morphofield lib a1 = Inr a2 \<longrightarrow>
      (\<forall>e. store_vectors lib a2 source_pc_model = Inl e \<longrightarrow> ?run = Inl e)
      \<and> (\<forall>a3 pc1. store_vectors lib a2 source_pc_model = Inr (a3, pc1) \<longrightarrow>
      (\<forall>e. construct_field lib pc1 morphofield_factor = Inl e \<longrightarrow> ?run = Inl e)
      \<and> (\<forall>pc_vectors. construct_field lib pc1 morphofield_factor = Inr pc_vectors \<longrightarrow>
      (\<forall>e. morphopath lib a3 morphopath_t_end = Inl e \<longrightarrow> ?run = Inl e)
      \<and> (\<forall>a4. morphopath lib a3 morphopath_t_end = Inr a4 \<longrightarrow>
      (\<forall>e. construct_trajectory lib a4 morphopath_sampling = Inl e \<longrightarrow> ?run = Inl e)
      \<and> (\<forall>trajectory_model. construct_trajectory lib a4 morphopath_sampling = Inr trajectory_model \<longrightarrow>
      (\<forall>e. morphofield_acceleration lib a4 = Inl e \<longrightarrow> ?run = Inl e)
      \<and> (\<forall>a5. morphofield_acceleration lib a4 = Inr a5 \<longrightarrow>
      (\<forall>e. morphofield_curvature lib a5 = Inl e \<longrightarrow> ?run = Inl e)
      \<and> (\<forall>a6. morphofield_curvature lib a5 = Inr a6 \<longrightarrow>
      (\<forall>e. morphofield_curl lib a6 = Inl e \<longrightarrow> ?run = Inl e)
      \<and> (\<forall>a7. morphofield_curl lib a6 = Inr a7 \<longrightarrow>
      (\<forall>e. morphofield_torsion lib a7 = Inl e \<longrightarrow> ?run = Inl e)
      \<and> (\<forall>a8. morphofield_torsion lib a7 = Inr a8 \<longrightarrow>
      (\<forall>e. copy_obs_all lib a8 pc1
           [(''acceleration'', ''acceleration''), (''curvature'', ''curvature''),
            (''curl'', ''curl''), (''torsion'', ''torsion'')] = Inl e \<longrightarrow> ?run = Inl e)
      \<and> (\<forall>pc2. copy_obs_all lib a8 pc1
           [(''acceleration'', ''acceleration''), (''curvature'', ''curvature''),
            (''curl'', ''curl''), (''torsion'', ''torsion'')] = Inr pc2 \<longrightarrow>
      (\<forall>e. copy_obs_all lib a8 pc_vectors
           [(''V_z'', ''V_Z''), (''acceleration'', ''acceleration''), (''curvature'', ''curvature''),
            (''curl'', ''curl''), (''torsion'', ''torsion'')] = Inl e \<longrightarrow> ?run = Inl e)
      \<and> (\<forall>pc_vectors'. copy_obs_all lib a8 pc_vectors
           [(''V_z'', ''V_Z''), (''acceleration'', ''acceleration''), (''curvature'', ''curvature''),
            (''curl'', ''curl''), (''torsion'', ''torsion'')] = Inr pc_vectors' \<longrightarrow>
      (\<forall>e. copy_obs_all lib a8 trajectory_model
           [(''V_z'', ''V_Z''), (''acceleration'', ''acceleration''), (''curvature'', ''curvature''),
            (''curl'', ''curl''), (''torsion'', ''torsion'')] = Inl e \<longrightarrow> ?run = Inl e)
      \<and> (\<forall>trajectory_model'. copy_obs_all lib a8 trajectory_model
           [(''V_z'', ''V_Z''), (''acceleration'', ''acceleration''), (''curvature'', ''curvature''),
            (''curl'', ''curl''), (''torsion'', ''torsion'')] = Inr trajectory_model' \<longrightarrow>
      (\<forall>e. fate_t lib a8 = Inl e \<longrightarrow> ?run = Inl e)
      \<and> (\<forall>t_items time_vec. fate_t lib a8 = Inr t_items \<and> time_vector t_items = Inr time_vec \<longrightarrow>
      (\<forall>e. from_adata lib a8 = Inl e \<longrightarrow> ?run = Inl e)
      \<and> (\<forall>vf. from_adata lib a8 = Inr vf \<longrightarrow>
      (\<forall>e. init_states lib a8 = Inl e \<longrightarrow> ?run = Inl e)
      \<and> (\<forall>pts. init_states lib a8 = Inr pts \<longrightarrow>
      (\<forall>e. stages_loop (odeint lib vf) time_vec [0..<100] pts [Index (obs_index lib a8)] = Inl e \<longrightarrow> ?run = Inl e)
      \<and> (\<forall>stages_X. stages_loop (odeint lib vf) time_vec [0..<100] pts [Index (obs_index lib a8)] = Inr stages_X \<longrightarrow>
            ?run = Inr (pc2, pc_vectors', trajectory_model', stages_X)))))))))))))))))))"
    by (simp add: morphogenesis_def analysis_def animation_stages_def bind_err_def
        del: upt_rec_numeral copy_obs_all.simps)
  have lit: "(\<exists>e. import_Literal available = Inl e) \<longleftrightarrow>
        \<not> available ''typing'' ''Literal'' \<and> \<not> available ''typing_extensions'' ''Literal''"
    by (simp add: import_Literal_def import_from_def)
  show ?thesis
    unfolding Let_def
    apply (intro conjI)
            apply (rule caught)
           apply (rule other)
          apply (rule iff)
         apply (rule lib)
        apply (rule chain)
       apply (intro allI, rule copy_obs_all_first_failure)
      apply (intro allI, rule stages_loop_first_failure)
     apply (intro allI, rule map_err_first_failure)
    apply (rule lit)
    done
qed


theorem morphogenesis_errors_witness:
  "morphogenesis (example_libraries\<lparr>import_spateo := Inl (ImportError ''No module named spateo'')\<rparr>)
       () () () 0.001 3000 10000 500 = Inl (ImportError install_message)
   \<and> morphogenesis (example_libraries\<lparr>import_spateo := Inl OSError\<rparr>)
       () () () 0.001 3000 10000 500 = Inl OSError
   \<and> morphogenesis (example_libraries\<lparr>morphofield := \<lambda>a. Inl (KeyError ''V_cells_mapping'')\<rparr>)
       () () () 0.001 3000 10000 500 = Inl (KeyError ''V_cells_mapping'')
   \<and> KeyError ''V_cells_mapping''
       \<in> library_errors (example_libraries\<lparr>morphofield := \<lambda>a. Inl (KeyError ''V_cells_mapping'')\<rparr>)"
proof -
  let ?absent = "example_libraries\<lparr>import_spateo := Inl (ImportError ''No module named spateo'')\<rparr>"
  let ?broken = "example_libraries\<lparr>import_spateo := Inl OSError\<rparr>"
  let ?failing = "example_libraries\<lparr>morphofield := \<lambda>a. Inl (KeyError ''V_cells_mapping'')\<rparr>"
  note a = morphogenesis_errors [of ?absent "()" "()" "()" "0.001" 3000 10000 500 "\<lambda>m n. True",
      unfolded Let_def]
  note b = morphogenesis_errors [of ?broken "()" "()" "()" "0.001" 3000 10000 500 "\<lambda>m n. True",
      unfolded Let_def]
  note f = morphogenesis_errors [of ?failing "()" "()" "()" "0.001" 3000 10000 500 "\<lambda>m n. True",
      unfolded Let_def]
  have ia: "import_spateo ?absent = Inl (ImportError ''No module named spateo'')" by simp
  have ib: "import_spateo ?broken = Inl OSError \<and> (\<forall>msg. OSError \<noteq> ImportError msg)" by simp
  have imp: "import_spateo ?failing = Inr ()" by (simp add: example_libraries_def)
  have s0: "obs_subset ?failing () () = Inr ()" by (simp add: example_libraries_def)
  have s1: "cell_directions ?failing () () 0.001 = Inr ()" by (simp add: example_libraries_def)
  have s2: "morphofield ?failing () = Inl (KeyError ''V_cells_mapping'')" by simp
  have 1: "morphogenesis ?absent () () () 0.001 3000 10000 500 = Inl (ImportError install_message)"
    using a [THEN conjunct1, rule_format, OF ia] .
  have 2: "morphogenesis ?broken () () () 0.001 3000 10000 500 = Inl OSError"
    using b [THEN conjunct2, THEN conjunct1, rule_format, OF ib] .
  note chain = f [THEN conjunct2, THEN conjunct2, THEN conjunct2, THEN conjunct2, THEN conjunct1,
      rule_format, OF imp]
  have 3: "morphogenesis ?failing () () () 0.001 3000 10000 500 = Inl (KeyError ''V_cells_mapping'')"
    using chain [THEN conjunct2, rule_format, OF s0, THEN conjunct2, rule_format, OF s1,
        THEN conjunct1, rule_format, OF s2] .
  have 4: "KeyError ''V_cells_mapping'' \<in> library_errors ?failing"
    using f [THEN conjunct2, THEN conjunct2, THEN conjunct2, THEN conjunct1, rule_format, OF imp 3] .
  from 1 2 3 4 show ?thesis by (intro conjI)
qed

text \<open>
  Claim C5 as stated (no other error handling or recovery in the repository's code) fails
  at the import of pv\_actors.py: where \<open>typing\<close> has no \<open>Literal\<close> the first import
  raises \<open>ImportError\<close>, the module catches it and goes on with \<open>typing_extensions\<close>.
\<close>

theorem import_Literal_recovers:
  "import_from (\<lambda>m n. m = ''typing_extensions'') ''typing'' ''Literal''
     = Inl (ImportError ''cannot import name Literal from typing'')
   \<and> import_Literal (\<lambda>m n. m = ''typing_extensions'') = Inr ''typing_extensions''"
  by (simp add: import_Literal_def import_from_def)

end
